theory Spec2Isabelle
  imports Main "HOL-Library.Word"
begin

section \<open>Status values\<close>

text \<open>
  The readers report through \<^verbatim>\<open>tensorflow::Status\<close> and \<^verbatim>\<open>StatusOr<T>\<close>. Only the
  error code of a status is modelled, the message is dropped. A \<^verbatim>\<open>StatusOr<T>\<close> is the
  sum \<open>code + T\<close>, with \<open>Inl\<close> for the error. A \<^verbatim>\<open>CHECK\<close> failure, a null dereference
  or an uncaught C++ exception ends the process: functions that can reach one return an
  option, and \<open>None\<close> is that end.
\<close>

datatype code =
  NotFound | InvalidArgument | FailedPrecondition | DataLoss | Internal | OutOfRange | Unknown

datatype status = OK | Err code

definition IsOutOfRange :: "status \<Rightarrow> bool" where
  "IsOutOfRange s = (s = Err OutOfRange)"

section \<open>fastq\_reader.cc\<close>

subsection \<open>Strings\<close>

definition HEADER_SYMBOL :: char where
  "HEADER_SYMBOL = CHR ''@''"

text \<open>The separator symbol is declared in fastq\_reader.cc and used nowhere in it.\<close>

definition SEQUENCE_AND_QUALITY_SEPARATOR_SYMBOL :: char where
  "SEQUENCE_AND_QUALITY_SEPARATOR_SYMBOL = CHR ''+''"

text \<open>\<^verbatim>\<open>std::string::find(" ")\<close>: the index of the first space, \<open>None\<close> for \<^verbatim>\<open>npos\<close>.\<close>

fun find_char :: "string \<Rightarrow> char \<Rightarrow> nat option" where
  "find_char [] c = None"
| "find_char (x # xs) c =
     (if x = c then Some 0
      else (case find_char xs c of None \<Rightarrow> None | Some i \<Rightarrow> Some (Suc i)))"

text \<open>
  \<^verbatim>\<open>std::string::substr(pos, len)\<close> throws \<^verbatim>\<open>std::out_of_range\<close> when \<open>pos\<close> is beyond
  the size of the string (\<open>None\<close> here); \<open>len\<close> is cut at the end of the string.
  \<open>substr_end\<close> is the one-argument form.
\<close>

definition substr :: "string \<Rightarrow> nat \<Rightarrow> nat \<Rightarrow> string option" where
  "substr s pos len = (if pos \<le> length s then Some (take len (drop pos s)) else None)"

definition substr_end :: "string \<Rightarrow> nat \<Rightarrow> string option" where
  "substr_end s pos = (if pos \<le> length s then Some (drop pos s) else None)"

text \<open>\<^verbatim>\<open>spaceix - 1\<close> on \<^verbatim>\<open>size_t\<close> (64 bits): it wraps at zero.\<close>

definition size_t_pred :: "nat \<Rightarrow> nat" where
  "size_t_pred n = (if n = 0 then 2 ^ 64 - 1 else n - 1)"

subsection \<open>The record and its parser\<close>

text \<open>
  A field of the protocol buffer is \<open>None\<close> until its setter is called;
  \<^verbatim>\<open>record->Clear()\<close> resets every field.
\<close>

record FastqRecord =
  fq_id :: "string option"
  fq_description :: "string option"
  fq_sequence :: "string option"
  fq_quality :: "string option"

definition FastqRecord_Clear :: FastqRecord where
  "FastqRecord_Clear =
     \<lparr>fq_id = None, fq_description = None, fq_sequence = None, fq_quality = None\<rparr>"

text \<open>\<^verbatim>\<open>ConvertToPb\<close> of fastq\_reader.cc: the status and the record it leaves in \<open>*record\<close>.\<close>

definition fastq_ConvertToPb ::
  "string \<Rightarrow> string \<Rightarrow> string \<Rightarrow> string \<Rightarrow> (status \<times> FastqRecord) option" where
  "fastq_ConvertToPb header sequence pad quality =
     (let record = FastqRecord_Clear in
      if length header = 0 \<or> header ! 0 \<noteq> HEADER_SYMBOL \<or> length sequence \<noteq> length quality
      then Some (Err DataLoss, record)
      else
        (case find_char header (CHR '' '') of
           None \<Rightarrow>
             (case substr_end header 1 of
                None \<Rightarrow> None
              | Some i \<Rightarrow>
                  Some (OK, record\<lparr>fq_id := Some i, fq_sequence := Some sequence,
                                    fq_quality := Some quality\<rparr>))
         | Some spaceix \<Rightarrow>
             (case substr header 1 (size_t_pred spaceix) of
                None \<Rightarrow> None
              | Some i \<Rightarrow>
                  (case substr_end header (spaceix + 1) of
                     None \<Rightarrow> None
                   | Some d \<Rightarrow>
                       Some (OK, record\<lparr>fq_id := Some i, fq_description := Some d,
                                         fq_sequence := Some sequence,
                                         fq_quality := Some quality\<rparr>)))))"

subsection \<open>The line stream\<close>

text \<open>
  \<^verbatim>\<open>tensorflow::io::BufferedInputStream\<close> is not part of the repository. Its stream is the
  list of the results its \<^verbatim>\<open>ReadLine\<close> calls will give, a line or a failure of the
  source or of the decompression; at the end of the list \<^verbatim>\<open>ReadLine\<close> answers
  \<open>OutOfRange\<close>, as often as it is asked.
\<close>

type_synonym line_stream = "(code + string) list"

fun ReadLine :: "line_stream \<Rightarrow> (code + string) \<times> line_stream" where
  "ReadLine [] = (Inl OutOfRange, [])"
| "ReadLine (r # rest) = (r, rest)"

subsection \<open>FastqReader\<close>

datatype CompressionType = NONE | GZIP

record FastqReaderOptions =
  compression_type :: CompressionType

text \<open>
  \<open>src\<close> is the file pointer \<open>src\_\<close> (\<open>True\<close>: not null), \<open>buffered_inputstream\<close>
  the unique pointer to the stream (\<open>None\<close>: reset). The constructor builds the
  stream over the file for either compression type; the stream of the model is the
  decompressed one, and the two pointers under it are left out. \<open>FromFile\<close> takes the
  file system: the stream of the file a path opens, \<open>None\<close> when it does not open.
\<close>

record FastqReader =
  fq_options :: FastqReaderOptions
  src :: bool
  buffered_inputstream :: "line_stream option"

definition FastqReader_FromFile ::
  "(string \<Rightarrow> line_stream option) \<Rightarrow> string \<Rightarrow> FastqReaderOptions \<Rightarrow> code + FastqReader" where
  "FastqReader_FromFile fs fastq_path options =
     (case fs fastq_path of
        None \<Rightarrow> Inl NotFound
      | Some fp \<Rightarrow>
          Inr \<lparr>fq_options = options, src = True, buffered_inputstream = Some fp\<rparr>)"

definition FastqReader_Close :: "FastqReader \<Rightarrow> status \<times> FastqReader" where
  "FastqReader_Close rd =
     (let rd1 = rd\<lparr>buffered_inputstream := None\<rparr>;
          rd2 = (if src rd1 then rd1\<lparr>src := False\<rparr> else rd1)
      in (OK, rd2))"

text \<open>
  \<^verbatim>\<open>FastqReader::Next\<close>: the status, the four strings as the call leaves them, and the
  reader. Reading through a reset stream pointer is a null dereference.
\<close>

definition FastqReader_Next ::
  "FastqReader \<Rightarrow> (status \<times> string \<times> string \<times> string \<times> string \<times> FastqReader) option" where
  "FastqReader_Next rd =
     (case buffered_inputstream rd of
        None \<Rightarrow> None
      | Some s0 \<Rightarrow>
          Some
            (case ReadLine s0 of
               (Inl e, s1) \<Rightarrow> (Err e, [], [], [], [], rd\<lparr>buffered_inputstream := Some s1\<rparr>)
             | (Inr header, s1) \<Rightarrow>
                 (case ReadLine s1 of
                    (Inl e, s2) \<Rightarrow>
                      (Err e, header, [], [], [], rd\<lparr>buffered_inputstream := Some s2\<rparr>)
                  | (Inr sequence, s2) \<Rightarrow>
                      (case ReadLine s2 of
                         (Inl e, s3) \<Rightarrow>
                           (Err e, header, sequence, [], [],
                            rd\<lparr>buffered_inputstream := Some s3\<rparr>)
                       | (Inr pad, s3) \<Rightarrow>
                           (case ReadLine s3 of
                              (Inl e, s4) \<Rightarrow>
                                (Err e, header, sequence, pad, [],
                                 rd\<lparr>buffered_inputstream := Some s4\<rparr>)
                            | (Inr quality, s4) \<Rightarrow>
                                (OK, header, sequence, pad, quality,
                                 rd\<lparr>buffered_inputstream := Some s4\<rparr>))))))"

subsection \<open>The iterable\<close>

text \<open>
  An iterable holds the pointer \<open>reader\_\<close> to its reader; the reader's state is kept
  with it.
\<close>

record FastqIterable =
  fq_reader :: "FastqReader option"

text \<open>
  Modelled from the spec: \<^verbatim>\<open>CheckIsAlive\<close> belongs to the base class of reader\_base.h,
  which is not among the sources. The spec (4.5): each \<open>next\<close> call checks the alive
  bit and returns \<open>FailedPrecondition\<close> when it is off. The bit is the pointer
  \<open>reader\_\<close> not being null.
\<close>

definition fastq_CheckIsAlive :: "FastqIterable \<Rightarrow> status" where
  "fastq_CheckIsAlive it = (if fq_reader it = None then Err FailedPrecondition else OK)"

definition FastqReader_Iterate :: "FastqReader \<Rightarrow> code + FastqIterable" where
  "FastqReader_Iterate rd =
     (if \<not> src rd then Inl FailedPrecondition else Inr \<lparr>fq_reader = Some rd\<rparr>)"

text \<open>
  \<^verbatim>\<open>FastqFullFileIterable::Next\<close>: the \<^verbatim>\<open>StatusOr<bool>\<close>, the record left in \<open>*out\<close>, and
  the iterable with its reader advanced.
\<close>

definition FastqFullFileIterable_Next ::
  "FastqIterable \<Rightarrow> FastqRecord \<Rightarrow> ((code + bool) \<times> FastqRecord \<times> FastqIterable) option" where
  "FastqFullFileIterable_Next it out =
     (case fastq_CheckIsAlive it of
        Err c \<Rightarrow> Some (Inl c, out, it)
      | OK \<Rightarrow>
          (case fq_reader it of
             None \<Rightarrow> None
           | Some fastq_reader \<Rightarrow>
               (case FastqReader_Next fastq_reader of
                  None \<Rightarrow> None
                | Some (status, header, sequence, pad, quality, rd') \<Rightarrow>
                    (let it' = it\<lparr>fq_reader := Some rd'\<rparr> in
                     (case status of
                        Err c \<Rightarrow>
                          (if IsOutOfRange status then Some (Inr False, out, it')
                           else Some (Inl c, out, it'))
                      | OK \<Rightarrow>
                          (case fastq_ConvertToPb header sequence pad quality of
                             None \<Rightarrow> None
                           | Some (Err c, record) \<Rightarrow> Some (Inl c, record, it')
                           | Some (OK, record) \<Rightarrow> Some (Inr True, record, it')))))))"

section \<open>bed\_reader.cc\<close>

subsection \<open>Lines and tokens\<close>

definition BED_COMMENT_PREFIX :: string where
  "BED_COMMENT_PREFIX = ''#''"

definition ValidNumBedFields :: "int \<Rightarrow> bool" where
  "ValidNumBedFields n =
     (n = 3 \<or> n = 4 \<or> n = 5 \<or> n = 6 \<or> n = 8 \<or> n = 9 \<or> n = 12)"

text \<open>\<^verbatim>\<open>absl::StartsWith(text, prefix)\<close>.\<close>

definition StartsWith :: "string \<Rightarrow> string \<Rightarrow> bool" where
  "StartsWith text prefix = (take (length prefix) text = prefix)"

text \<open>
  \<^verbatim>\<open>absl::StrSplit(line, d)\<close> into a vector of strings: every occurrence of the
  delimiter separates two tokens, empty tokens are kept, and the empty line is one empty
  token.
\<close>

fun StrSplit :: "string \<Rightarrow> char \<Rightarrow> string list" where
  "StrSplit [] d = [[]]"
| "StrSplit (c # cs) d =
     (if c = d then [] # StrSplit cs d
      else (case StrSplit cs d of [] \<Rightarrow> [[c]] | t # ts \<Rightarrow> (c # t) # ts))"

definition TAB :: char where
  "TAB = CHR 0x09"

text \<open>
  htslib is not part of the repository. An open \<^verbatim>\<open>htsFile\<close> is the list of the results
  its \<^verbatim>\<open>hts_getline\<close> calls will give: a line of text, or a read failure. The call
  returns the length of the line, \<open>-1\<close> at the end of the file, and a value below \<open>-1\<close>
  on a failure.
\<close>

datatype hts_read = Text string | ReadError

type_synonym htsFile = "hts_read list"

definition hts_getline :: "htsFile \<Rightarrow> int \<times> string \<times> htsFile" where
  "hts_getline fp =
     (case fp of
        [] \<Rightarrow> (- 1, [], [])
      | Text s # rest \<Rightarrow> (int (length s), s, rest)
      | ReadError # rest \<Rightarrow> (- 2, [], rest))"

text \<open>
  \<^verbatim>\<open>NextNonCommentLine\<close>: the status, the content of \<open>*line\<close> and the file after the
  call. The do-while loop reads on while the line read starts with the comment prefix.
\<close>

function NextNonCommentLine :: "htsFile \<Rightarrow> string \<Rightarrow> status \<times> string \<times> htsFile" where
  "NextNonCommentLine fp line =
     (case hts_getline fp of
        (ret, s, fp') \<Rightarrow>
          if ret = - 1 then (Err OutOfRange, line, fp')
          else if ret < 0 then (Err DataLoss, line, fp')
          else if StartsWith s BED_COMMENT_PREFIX then NextNonCommentLine fp' s
          else (OK, s, fp'))"
  by pat_completeness auto
termination
  by (relation "measure (\<lambda>(fp, line). length fp)")
    (auto simp: hts_getline_def split: list.splits hts_read.splits)

declare NextNonCommentLine.simps [simp del]

subsection \<open>The record and its parser\<close>

text \<open>
  tensorflow's \<^verbatim>\<open>safe_strto64\<close>, \<^verbatim>\<open>safe_strto32\<close> and \<^verbatim>\<open>safe_strtod\<close> are not part of the
  repository: they are parameters. Each takes the text and the content of the variable
  its second argument points to, and gives its boolean result and the content of the
  variable after the call. \<^verbatim>\<open>ConvertToPb\<close> declares the variables \<open>int64Value\<close>,
  \<open>int32Value\<close> and \<open>value\<close> without an initial value: what they hold at first is a
  parameter too. A double is the 64 bits of its representation; the parser only stores
  it, and the bits of \<open>0.0\<close> are \<open>0\<close>.
\<close>

type_synonym double = "64 word"

record env =
  safe_strto64 :: "string \<Rightarrow> 64 word \<Rightarrow> bool \<times> 64 word"
  safe_strto32 :: "string \<Rightarrow> 32 word \<Rightarrow> bool \<times> 32 word"
  safe_strtod :: "string \<Rightarrow> double \<Rightarrow> bool \<times> double"
  int64Value_init :: "64 word"
  int32Value_init :: "32 word"
  value_init :: double

datatype Strand = NO_STRAND | FORWARD_STRAND | REVERSE_STRAND

record BedRecord =
  bed_reference_name :: "string option"
  bed_start :: "64 word option"
  bed_end :: "64 word option"
  bed_name :: "string option"
  bed_score :: "double option"
  bed_strand :: "Strand option"
  bed_thick_start :: "64 word option"
  bed_thick_end :: "64 word option"
  bed_item_rgb :: "string option"
  bed_block_count :: "32 word option"
  bed_block_sizes :: "string option"
  bed_block_starts :: "string option"

definition BedRecord_Clear :: BedRecord where
  "BedRecord_Clear =
     \<lparr>bed_reference_name = None, bed_start = None, bed_end = None, bed_name = None,
      bed_score = None, bed_strand = None, bed_thick_start = None, bed_thick_end = None,
      bed_item_rgb = None, bed_block_count = None, bed_block_sizes = None,
      bed_block_starts = None\<rparr>"

text \<open>
  \<^verbatim>\<open>ConvertToPb\<close> of bed\_reader.cc after the strand: the thick positions, the colour and
  the blocks. \<open>int64Value\<close> is what the variable holds after the end position was
  parsed.
\<close>

definition bed_ConvertToPb_rest ::
  "env \<Rightarrow> string list \<Rightarrow> int \<Rightarrow> 64 word \<Rightarrow> BedRecord \<Rightarrow> BedRecord" where
  "bed_ConvertToPb_rest E tokens numFields int64Value record =
     (let r7 =
            (if numFields > 7 then
               (let v3 = snd (safe_strto64 E (tokens ! 6) int64Value);
                    v4 = snd (safe_strto64 E (tokens ! 7) v3)
                in record\<lparr>bed_thick_start := Some v3, bed_thick_end := Some v4\<rparr>)
             else record);
          r8 = (if numFields > 8 then r7\<lparr>bed_item_rgb := Some (tokens ! 8)\<rparr> else r7)
      in if numFields \<ge> 12 then
           r8\<lparr>bed_block_count :=
                  Some (snd (safe_strto32 E (tokens ! 9) (int32Value_init E))),
               bed_block_sizes := Some (tokens ! 10),
               bed_block_starts := Some (tokens ! 11)\<rparr>
         else r8)"

text \<open>
  \<^verbatim>\<open>ConvertToPb\<close> of bed\_reader.cc: the status, \<open>*numTokensSeen\<close> and the record left in
  \<open>*record\<close>. The results of the three numeric primitives are not looked at.
\<close>

definition bed_ConvertToPb :: "env \<Rightarrow> string \<Rightarrow> int \<Rightarrow> status \<times> int \<times> BedRecord" where
  "bed_ConvertToPb E line desiredNumFields =
     (let tokens = StrSplit line TAB;
          numTokens = int (length tokens)
      in if \<not> ValidNumBedFields numTokens then (Err Unknown, numTokens, BedRecord_Clear)
         else
           (let numFields =
                  (if desiredNumFields = 0 then numTokens else min numTokens desiredNumFields);
                v1 = snd (safe_strto64 E (tokens ! 1) (int64Value_init E));
                v2 = snd (safe_strto64 E (tokens ! 2) v1);
                r3 = BedRecord_Clear\<lparr>bed_reference_name := Some (tokens ! 0),
                                      bed_start := Some v1, bed_end := Some v2\<rparr>;
                r4 = (if numFields > 3 then r3\<lparr>bed_name := Some (tokens ! 3)\<rparr> else r3);
                r5 =
                  (if numFields > 4 then
                     r4\<lparr>bed_score := Some (snd (safe_strtod E (tokens ! 4) (value_init E)))\<rparr>
                   else r4)
            in if numFields > 5 then
                 (if tokens ! 5 = ''+'' then
                    (OK, numTokens,
                     bed_ConvertToPb_rest E tokens numFields v2
                       (r5\<lparr>bed_strand := Some FORWARD_STRAND\<rparr>))
                  else if tokens ! 5 = ''-'' then
                    (OK, numTokens,
                     bed_ConvertToPb_rest E tokens numFields v2
                       (r5\<lparr>bed_strand := Some REVERSE_STRAND\<rparr>))
                  else if tokens ! 5 = ''.'' then
                    (OK, numTokens,
                     bed_ConvertToPb_rest E tokens numFields v2
                       (r5\<lparr>bed_strand := Some NO_STRAND\<rparr>))
                  else (Err Unknown, numTokens, r5))
               else (OK, numTokens, bed_ConvertToPb_rest E tokens numFields v2 r5)))"

subsection \<open>BedReader\<close>

record BedReaderOptions =
  num_fields :: int

record BedHeader =
  header_num_fields :: int

text \<open>\<open>bed_fp\<close> is the member \<open>fp\_\<close>: \<open>None\<close> is the null pointer.\<close>

record BedReader =
  bed_options :: BedReaderOptions
  bed_header :: BedHeader
  bed_fp :: "htsFile option"

text \<open>
  A file system gives the content of the file a path opens, \<open>None\<close> when
  \<^verbatim>\<open>hts_open_x\<close> returns null.
\<close>

definition GetNumFields :: "(string \<Rightarrow> htsFile option) \<Rightarrow> string \<Rightarrow> code + int" where
  "GetNumFields fs path =
     (case (case fs path of
              None \<Rightarrow> (Err NotFound, [])
            | Some fp \<Rightarrow> (case NextNonCommentLine fp [] of (st, line, fp') \<Rightarrow> (st, line))) of
        (OK, line) \<Rightarrow> Inr (int (length (StrSplit line TAB)))
      | (Err c, line) \<Rightarrow> Inl c)"

definition BedReader_FromFile ::
  "(string \<Rightarrow> htsFile option) \<Rightarrow> string \<Rightarrow> BedReaderOptions \<Rightarrow> code + BedReader" where
  "BedReader_FromFile fs bed_path options =
     (case GetNumFields fs bed_path of
        Inl c \<Rightarrow> Inl c
      | Inr numFieldsInBed \<Rightarrow>
          (let header = \<lparr>header_num_fields = numFieldsInBed\<rparr> in
           if num_fields options \<noteq> 0 \<and>
              (num_fields options > numFieldsInBed \<or> \<not> ValidNumBedFields (num_fields options))
           then Inl InvalidArgument
           else
             (case fs bed_path of
                None \<Rightarrow> Inl NotFound
              | Some fp \<Rightarrow>
                  Inr \<lparr>bed_options = options, bed_header = header, bed_fp = Some fp\<rparr>)))"

text \<open>\<^verbatim>\<open>BedReader::Close\<close>; \<open>retval\<close> is what \<^verbatim>\<open>hts_close\<close> returns.\<close>

definition BedReader_Close :: "BedReader \<Rightarrow> int \<Rightarrow> status \<times> BedReader" where
  "BedReader_Close rd retval =
     (case bed_fp rd of
        None \<Rightarrow> (Err FailedPrecondition, rd)
      | Some fp \<Rightarrow>
          (let rd' = rd\<lparr>bed_fp := None\<rparr> in
           if retval < 0 then (Err Internal, rd') else (OK, rd')))"

definition Validate :: "BedReader \<Rightarrow> int \<Rightarrow> status" where
  "Validate rd numTokens =
     (if header_num_fields (bed_header rd) \<noteq> numTokens then Err Unknown else OK)"

subsection \<open>The iterable\<close>

record BedIterable =
  bed_reader :: "BedReader option"

text \<open>
  Modelled from the spec: \<^verbatim>\<open>CheckIsAlive\<close> of reader\_base.h, as for the FASTQ iterable.
\<close>

definition bed_CheckIsAlive :: "BedIterable \<Rightarrow> status" where
  "bed_CheckIsAlive it = (if bed_reader it = None then Err FailedPrecondition else OK)"

definition BedReader_Iterate :: "BedReader \<Rightarrow> code + BedIterable" where
  "BedReader_Iterate rd =
     (if bed_fp rd = None then Inl FailedPrecondition else Inr \<lparr>bed_reader = Some rd\<rparr>)"

text \<open>
  \<^verbatim>\<open>BedFullFileIterable::Next\<close>: the \<^verbatim>\<open>StatusOr<bool>\<close>, the record left in \<open>*out\<close>, and
  the iterable with its reader advanced. \<^verbatim>\<open>NextNonCommentLine\<close> checks that the file
  pointer is not null.
\<close>

definition BedFullFileIterable_Next ::
  "env \<Rightarrow> BedIterable \<Rightarrow> BedRecord \<Rightarrow> ((code + bool) \<times> BedRecord \<times> BedIterable) option" where
  "BedFullFileIterable_Next E it out =
     (case bed_CheckIsAlive it of
        Err c \<Rightarrow> Some (Inl c, out, it)
      | OK \<Rightarrow>
          (case bed_reader it of
             None \<Rightarrow> None
           | Some rd \<Rightarrow>
               (case bed_fp rd of
                  None \<Rightarrow> None
                | Some fp \<Rightarrow>
                    (case NextNonCommentLine fp [] of
                       (status, line, fp') \<Rightarrow>
                         (let it' = it\<lparr>bed_reader := Some (rd\<lparr>bed_fp := Some fp'\<rparr>)\<rparr> in
                          (case status of
                             Err c \<Rightarrow>
                               (if IsOutOfRange status then Some (Inr False, out, it')
                                else Some (Inl c, out, it'))
                           | OK \<Rightarrow>
                               (case bed_ConvertToPb E line (num_fields (bed_options rd)) of
                                  (Err c, numTokens, record) \<Rightarrow> Some (Inl c, record, it')
                                | (OK, numTokens, record) \<Rightarrow>
                                    (case Validate rd numTokens of
                                       Err c \<Rightarrow> Some (Inl c, record, it')
                                     | OK \<Rightarrow> Some (Inr True, record, it')))))))))"

section \<open>Auxiliary definitions of the properties\<close>

text \<open>The three ways in which the FASTQ parser finds a four-line unit malformed.\<close>

definition fastq_malformed :: "string \<Rightarrow> string \<Rightarrow> string \<Rightarrow> bool" where
  "fastq_malformed H S Q = (length H = 0 \<or> H ! 0 \<noteq> CHR ''@'' \<or> length S \<noteq> length Q)"

text \<open>A line of text from its tokens, for the examples: the tokens joined by tabs.\<close>

fun tsv :: "string list \<Rightarrow> string" where
  "tsv [] = []"
| "tsv [t] = t"
| "tsv (t # ts) = t @ TAB # tsv ts"

text \<open>
  A stand-in for the numeric primitives, for the examples. It reads an unsigned decimal
  numeral below \<open>2 ^ 31\<close> and fails on any other text; for doubles it knows the
  numeral \<open>0\<close> only. On a failure it leaves the variable as it was, as a primitive
  does that assigns its result on success only.
\<close>

definition digit_of :: "char \<Rightarrow> nat option" where
  "digit_of c =
     (let k = (of_char c :: nat) in if 48 \<le> k \<and> k \<le> 57 then Some (k - 48) else None)"

fun decimal_acc :: "nat \<Rightarrow> string \<Rightarrow> nat option" where
  "decimal_acc acc [] = Some acc"
| "decimal_acc acc (c # cs) =
     (case digit_of c of None \<Rightarrow> None | Some k \<Rightarrow> decimal_acc (10 * acc + k) cs)"

definition decimal :: "string \<Rightarrow> nat option" where
  "decimal s =
     (if s = [] then None
      else (case decimal_acc 0 s of
              None \<Rightarrow> None
            | Some n \<Rightarrow> if n < 2 ^ 31 then Some n else None))"

definition keeping :: env where
  "keeping =
     \<lparr>safe_strto64 =
        (\<lambda>s old. case decimal s of None \<Rightarrow> (False, old) | Some n \<Rightarrow> (True, of_nat n)),
      safe_strto32 =
        (\<lambda>s old. case decimal s of None \<Rightarrow> (False, old) | Some n \<Rightarrow> (True, of_nat n)),
      safe_strtod = (\<lambda>s old. if s = ''0'' then (True, 0) else (False, old)),
      int64Value_init = 0, int32Value_init = 0, value_init = 0\<rparr>"

text \<open>
  The variables that \<^verbatim>\<open>ConvertToPb\<close> declares without an initial value hold at each
  call whatever the stack holds there: \<open>with_garbage E g\<close> is the environment with the
  primitives of \<open>E\<close> and the content \<open>g\<close> for the three variables.
\<close>

definition with_garbage :: "env \<Rightarrow> 64 word \<times> 32 word \<times> double \<Rightarrow> env" where
  "with_garbage E g =
     (case g of
        (a, b, c) \<Rightarrow> E\<lparr>int64Value_init := a, int32Value_init := b, value_init := c\<rparr>)"


text \<open>Which of the twelve fields of a record are set, in the order of the columns.\<close>

definition populated :: "BedRecord \<Rightarrow> bool list" where
  "populated r =
     [bed_reference_name r \<noteq> None, bed_start r \<noteq> None, bed_end r \<noteq> None,
      bed_name r \<noteq> None, bed_score r \<noteq> None, bed_strand r \<noteq> None,
      bed_thick_start r \<noteq> None, bed_thick_end r \<noteq> None, bed_item_rgb r \<noteq> None,
      bed_block_count r \<noteq> None, bed_block_sizes r \<noteq> None, bed_block_starts r \<noteq> None]"

text \<open>Comment lines, and a file without them.\<close>

definition is_comment :: "hts_read \<Rightarrow> bool" where
  "is_comment r = (case r of Text s \<Rightarrow> StartsWith s BED_COMMENT_PREFIX | ReadError \<Rightarrow> False)"

definition strip_comments :: "htsFile \<Rightarrow> htsFile" where
  "strip_comments fp = filter (\<lambda>r. \<not> is_comment r) fp"

text \<open>
  Successive calls of \<open>Next\<close> on an iterable, one for each element of \<open>gs\<close>: the call
  finds the element in the three variables without initial value, and gets the record
  the call before left. The result is the outcome and the record of every call.
  \<open>bed_session\<close> opens the file, asks for the iterable and makes the calls;
  \<open>session_outcomes\<close> keeps the outcomes and drops the records.
\<close>

fun bed_run ::
  "env \<Rightarrow> (64 word \<times> 32 word \<times> double) list \<Rightarrow> BedIterable \<Rightarrow> BedRecord \<Rightarrow>
   ((code + bool) \<times> BedRecord) list option" where
  "bed_run E [] it out = Some []"
| "bed_run E (g # gs) it out =
     (case BedFullFileIterable_Next (with_garbage E g) it out of
        None \<Rightarrow> None
      | Some (res, out', it') \<Rightarrow>
          (case bed_run E gs it' out' of
             None \<Rightarrow> None
           | Some rs \<Rightarrow> Some ((res, out') # rs)))"

definition bed_session ::
  "env \<Rightarrow> (64 word \<times> 32 word \<times> double) list \<Rightarrow> (string \<Rightarrow> htsFile option) \<Rightarrow> string \<Rightarrow>
   BedReaderOptions \<Rightarrow> BedRecord \<Rightarrow> code + ((code + bool) \<times> BedRecord) list option" where
  "bed_session E gs fs path options out =
     (case BedReader_FromFile fs path options of
        Inl c \<Rightarrow> Inl c
      | Inr rd \<Rightarrow>
          (case BedReader_Iterate rd of
             Inl c \<Rightarrow> Inl c
           | Inr it \<Rightarrow> Inr (bed_run E gs it out)))"


section \<open>Properties of the FASTQ reader\<close>

lemma find_char_None_iff: "find_char xs c = None \<longleftrightarrow> c \<notin> set xs"
  by (induction xs) (auto split: option.splits)

lemma find_char_Some:
  "find_char xs c = Some i \<Longrightarrow>
     i < length xs \<and> take i xs = takeWhile (\<lambda>x. x \<noteq> c) xs \<and> drop i xs = dropWhile (\<lambda>x. x \<noteq> c) xs"
  by (induction xs arbitrary: i) (auto split: option.splits if_splits)

lemma takeWhile_notin: "c \<notin> set xs \<Longrightarrow> takeWhile (\<lambda>x. x \<noteq> c) xs = xs"
  by (induction xs) auto

lemma fastq_ConvertToPb_malformed:
  "fastq_malformed H S Q \<Longrightarrow> fastq_ConvertToPb H S P Q = Some (Err DataLoss, FastqRecord_Clear)"
  by (auto simp: fastq_malformed_def fastq_ConvertToPb_def HEADER_SYMBOL_def)

lemma fastq_ConvertToPb_wellformed:
  assumes "\<not> fastq_malformed H S Q"
  shows "fastq_ConvertToPb H S P Q =
           Some (OK, \<lparr>fq_id = Some (takeWhile (\<lambda>x. x \<noteq> CHR '' '') (tl H)),
                      fq_description =
                        (if CHR '' '' \<in> set H
                         then Some (tl (dropWhile (\<lambda>x. x \<noteq> CHR '' '') H)) else None),
                      fq_sequence = Some S, fq_quality = Some Q\<rparr>)"
proof -
  from assms obtain T where H: "H = CHR ''@'' # T" and len: "length S = length Q"
    by (cases H) (auto simp: fastq_malformed_def)
  show ?thesis
  proof (cases "find_char T (CHR '' '')")
    case None
    then have "CHR '' '' \<notin> set T" by (simp add: find_char_None_iff)
    with None show ?thesis
      by (simp add: H len fastq_ConvertToPb_def HEADER_SYMBOL_def substr_end_def
          FastqRecord_Clear_def takeWhile_notin)
  next
    case (Some i)
    from find_char_Some[OF Some] have i: "i < length T"
      and tk: "take i T = takeWhile (\<lambda>x. x \<noteq> CHR '' '') T"
      and dr: "drop i T = dropWhile (\<lambda>x. x \<noteq> CHR '' '') T" by auto
    from Some have mem: "CHR '' '' \<in> set T"
      using find_char_None_iff[of T "CHR '' ''"] by auto
    from i have "drop (Suc i) T = tl (drop i T)" by (simp add: drop_Suc tl_drop)
    with Some i tk dr mem show ?thesis
      by (simp add: H len fastq_ConvertToPb_def HEADER_SYMBOL_def substr_end_def substr_def
          size_t_pred_def FastqRecord_Clear_def)
  qed
qed


lemma ReadLine_Inr: "ReadLine s = (Inr l, s') \<longleftrightarrow> s = Inr l # s'"
  by (cases s) auto

lemma FastqReader_Next_four:
  "buffered_inputstream rd = Some (Inr H # Inr S # Inr P # Inr Q # rest) \<Longrightarrow>
   FastqReader_Next rd = Some (OK, H, S, P, Q, rd\<lparr>buffered_inputstream := Some rest\<rparr>)"
  by (simp add: FastqReader_Next_def)

lemma FastqReader_Next_OK_D:
  "FastqReader_Next rd = Some (OK, H, S, P, Q, rd') \<Longrightarrow>
   \<exists>rest. buffered_inputstream rd = Some (Inr H # Inr S # Inr P # Inr Q # rest) \<and>
          rd' = rd\<lparr>buffered_inputstream := Some rest\<rparr>"
  by (auto simp: FastqReader_Next_def ReadLine_Inr split: option.splits prod.splits sum.splits)

lemma FastqReader_Next_short:
  assumes "buffered_inputstream rd = Some (map Inr ls)" "length ls < 4"
  shows "\<exists>h s p q. FastqReader_Next rd =
           Some (Err OutOfRange, h, s, p, q, rd\<lparr>buffered_inputstream := Some []\<rparr>)"
proof -
  from assms(2) consider "ls = []" | a where "ls = [a]" | a b where "ls = [a, b]"
    | a b c where "ls = [a, b, c]"
    by (cases ls rule: list.exhaust; simp; (cases "tl ls"; simp; (cases "tl (tl ls)"; simp; (cases "tl (tl (tl ls))"; simp))))
  then show ?thesis
    using assms(1) by cases (simp_all add: FastqReader_Next_def)
qed

lemma fastq_Next_four:
  assumes "fq_reader it = Some rd"
    and "buffered_inputstream rd = Some (Inr H # Inr S # Inr P # Inr Q # rest)"
  shows "FastqFullFileIterable_Next it out =
           (case fastq_ConvertToPb H S P Q of
              None \<Rightarrow> None
            | Some (Err c, record) \<Rightarrow>
                Some (Inl c, record, it\<lparr>fq_reader := Some (rd\<lparr>buffered_inputstream := Some rest\<rparr>)\<rparr>)
            | Some (OK, record) \<Rightarrow>
                Some (Inr True, record, it\<lparr>fq_reader := Some (rd\<lparr>buffered_inputstream := Some rest\<rparr>)\<rparr>))"
  using assms
  by (simp add: FastqFullFileIterable_Next_def fastq_CheckIsAlive_def Let_def
      FastqReader_Next_four[OF assms(2)])

lemma fastq_Next_True_D:
  assumes "FastqFullFileIterable_Next it out = Some (Inr True, r, it')"
  shows "\<exists>rd H S P Q rest. fq_reader it = Some rd \<and>
           buffered_inputstream rd = Some (Inr H # Inr S # Inr P # Inr Q # rest) \<and>
           fastq_ConvertToPb H S P Q = Some (OK, r) \<and>
           it' = it\<lparr>fq_reader := Some (rd\<lparr>buffered_inputstream := Some rest\<rparr>)\<rparr>"
proof -
  from assms obtain rd where rd: "fq_reader it = Some rd"
    by (auto simp: FastqFullFileIterable_Next_def fastq_CheckIsAlive_def split: option.splits if_splits)
  from assms rd obtain H S P Q rd' where
    nx: "FastqReader_Next rd = Some (OK, H, S, P, Q, rd')"
    and cv: "fastq_ConvertToPb H S P Q = Some (OK, r)"
    and it': "it' = it\<lparr>fq_reader := Some rd'\<rparr>"
    by (auto simp: FastqFullFileIterable_Next_def fastq_CheckIsAlive_def Let_def
        split: option.splits if_splits prod.splits status.splits)
  from FastqReader_Next_OK_D[OF nx] rd cv it' show ?thesis by blast
qed


text \<open>
  C2. The parser of a four-line unit returns \<open>DataLoss\<close> exactly when the header is
  empty, or does not start with \<open>@\<close>, or the sequence and the quality differ in length,
  and \<open>OK\<close> otherwise. Hence every record that \<open>Next\<close> returns comes from four lines
  read from the stream, its header is not empty and starts with \<open>@\<close>, its id is the
  text after the \<open>@\<close> up to the first space, and its sequence and quality are the
  second and fourth line, of equal length.
\<close>

theorem fastq_DataLoss_iff_malformed:
  "(\<exists>st r. fastq_ConvertToPb H S P Q = Some (st, r) \<and>
      (st = Err DataLoss \<longleftrightarrow> (length H = 0 \<or> H ! 0 \<noteq> CHR ''@'' \<or> length S \<noteq> length Q)) \<and>
      (st = OK \<longleftrightarrow> \<not> (length H = 0 \<or> H ! 0 \<noteq> CHR ''@'' \<or> length S \<noteq> length Q))) \<and>
   (\<forall>it out r it'.
      FastqFullFileIterable_Next it out = Some (Inr True, r, it') \<longrightarrow>
      (\<exists>rd h s p q rest.
         fq_reader it = Some rd \<and>
         buffered_inputstream rd = Some (Inr h # Inr s # Inr p # Inr q # rest) \<and>
         h \<noteq> [] \<and> hd h = CHR ''@'' \<and>
         fq_id r = Some (takeWhile (\<lambda>c. c \<noteq> CHR '' '') (tl h)) \<and>
         fq_sequence r = Some s \<and> fq_quality r = Some q \<and>
         length s = length q))"
proof (intro conjI allI impI)
  show "\<exists>st r. fastq_ConvertToPb H S P Q = Some (st, r) \<and>
      (st = Err DataLoss \<longleftrightarrow> (length H = 0 \<or> H ! 0 \<noteq> CHR ''@'' \<or> length S \<noteq> length Q)) \<and>
      (st = OK \<longleftrightarrow> \<not> (length H = 0 \<or> H ! 0 \<noteq> CHR ''@'' \<or> length S \<noteq> length Q))"
  proof (cases "fastq_malformed H S Q")
    case True
    from fastq_ConvertToPb_malformed[OF True, of P] True show ?thesis
      by (simp add: fastq_malformed_def)
  next
    case False
    from fastq_ConvertToPb_wellformed[OF False, of P] False show ?thesis
      by (simp add: fastq_malformed_def)
  qed
next
  fix it out r it'
  assume "FastqFullFileIterable_Next it out = Some (Inr True, r, it')"
  from fastq_Next_True_D[OF this] obtain rd h s p q rest where
    rd: "fq_reader it = Some rd"
    and st: "buffered_inputstream rd = Some (Inr h # Inr s # Inr p # Inr q # rest)"
    and cv: "fastq_ConvertToPb h s p q = Some (OK, r)" by blast
  have wf: "\<not> fastq_malformed h s q"
  proof
    assume "fastq_malformed h s q"
    from fastq_ConvertToPb_malformed[OF this, of p] cv show False by simp
  qed
  from wf have h: "h \<noteq> []" "hd h = CHR ''@''" "length s = length q"
    by (cases h; simp add: fastq_malformed_def)+
  from fastq_ConvertToPb_wellformed[OF wf, of p] cv
  have "fq_id r = Some (takeWhile (\<lambda>c. c \<noteq> CHR '' '') (tl h))"
    "fq_sequence r = Some s" "fq_quality r = Some q" by auto
  with rd st h show "\<exists>rd h s p q rest.
         fq_reader it = Some rd \<and>
         buffered_inputstream rd = Some (Inr h # Inr s # Inr p # Inr q # rest) \<and>
         h \<noteq> [] \<and> hd h = CHR ''@'' \<and>
         fq_id r = Some (takeWhile (\<lambda>c. c \<noteq> CHR '' '') (tl h)) \<and>
         fq_sequence r = Some s \<and> fq_quality r = Some q \<and>
         length s = length q" by blast
qed

theorem fastq_DataLoss_iff_malformed_witness:
  "FastqFullFileIterable_Next
     \<lparr>fq_reader = Some \<lparr>fq_options = \<lparr>compression_type = NONE\<rparr>, src = True,
        buffered_inputstream =
          Some [Inr ''@r1 desc'', Inr ''ACGT'', Inr ''+'', Inr ''!!!!'']\<rparr>\<rparr>
     FastqRecord_Clear =
   Some (Inr True,
     \<lparr>fq_id = Some ''r1'', fq_description = Some ''desc'', fq_sequence = Some ''ACGT'',
      fq_quality = Some ''!!!!''\<rparr>,
     \<lparr>fq_reader = Some \<lparr>fq_options = \<lparr>compression_type = NONE\<rparr>, src = True,
        buffered_inputstream = Some []\<rparr>\<rparr>) \<and>
   (\<exists>rd h s p q rest.
      fq_reader \<lparr>fq_reader = Some \<lparr>fq_options = \<lparr>compression_type = NONE\<rparr>, src = True,
        buffered_inputstream =
          Some [Inr ''@r1 desc'', Inr ''ACGT'', Inr ''+'', Inr ''!!!!'']\<rparr>\<rparr> = Some rd \<and>
      buffered_inputstream rd = Some (Inr h # Inr s # Inr p # Inr q # rest) \<and>
      h \<noteq> [] \<and> hd h = CHR ''@'' \<and>
      fq_id \<lparr>fq_id = Some ''r1'', fq_description = Some ''desc'', fq_sequence = Some ''ACGT'',
        fq_quality = Some ''!!!!''\<rparr> = Some (takeWhile (\<lambda>c. c \<noteq> CHR '' '') (tl h)) \<and>
      fq_sequence \<lparr>fq_id = Some ''r1'', fq_description = Some ''desc'',
        fq_sequence = Some ''ACGT'', fq_quality = Some ''!!!!''\<rparr> = Some s \<and>
      fq_quality \<lparr>fq_id = Some ''r1'', fq_description = Some ''desc'',
        fq_sequence = Some ''ACGT'', fq_quality = Some ''!!!!''\<rparr> = Some q \<and>
      length s = length q)"
proof -
  have run: "FastqFullFileIterable_Next
     \<lparr>fq_reader = Some \<lparr>fq_options = \<lparr>compression_type = NONE\<rparr>, src = True,
        buffered_inputstream =
          Some [Inr ''@r1 desc'', Inr ''ACGT'', Inr ''+'', Inr ''!!!!'']\<rparr>\<rparr>
     FastqRecord_Clear =
   Some (Inr True,
     \<lparr>fq_id = Some ''r1'', fq_description = Some ''desc'', fq_sequence = Some ''ACGT'',
      fq_quality = Some ''!!!!''\<rparr>,
     \<lparr>fq_reader = Some \<lparr>fq_options = \<lparr>compression_type = NONE\<rparr>, src = True,
        buffered_inputstream = Some []\<rparr>\<rparr>)"
    by (simp add: FastqFullFileIterable_Next_def fastq_CheckIsAlive_def FastqReader_Next_def
        fastq_ConvertToPb_def HEADER_SYMBOL_def substr_def substr_end_def size_t_pred_def
        FastqRecord_Clear_def)
  from fastq_DataLoss_iff_malformed[of "''@r1 desc''" "''ACGT''" "''+''" "''!!!!''",
      THEN conjunct2, rule_format, OF run] run
  show ?thesis by simp
qed

text \<open>
  C3 as stated fails. The input has lost its final quality line: the fourth
  \<^verbatim>\<open>ReadLine\<close> finds the end of the stream, and \<open>Next\<close> returns false, the end of the
  iteration, where the claim has a \<open>DataLoss\<close> error.
\<close>

theorem fastq_truncated_counterexample:
  "FastqFullFileIterable_Next
     \<lparr>fq_reader = Some \<lparr>fq_options = \<lparr>compression_type = NONE\<rparr>, src = True,
        buffered_inputstream = Some [Inr ''@r1'', Inr ''ACGT'', Inr ''+'']\<rparr>\<rparr>
     FastqRecord_Clear =
   Some (Inr False, FastqRecord_Clear,
     \<lparr>fq_reader = Some \<lparr>fq_options = \<lparr>compression_type = NONE\<rparr>, src = True,
        buffered_inputstream = Some []\<rparr>\<rparr>)"
  by (simp add: FastqFullFileIterable_Next_def fastq_CheckIsAlive_def FastqReader_Next_def
      IsOutOfRange_def)

text \<open>
  C3, as the code has it. \<^verbatim>\<open>FastqReader::Next\<close> returns early with the status of the
  \<^verbatim>\<open>ReadLine\<close> that found the end of the stream, whichever of the four it was, and
  \<^verbatim>\<open>FastqFullFileIterable::Next\<close> turns every \<open>OutOfRange\<close> into the end of the
  iteration. So a stream that ends with fewer than four lines (none, at a record
  boundary, or one to three, a truncated record) ends the iteration with no error: the
  call returns false, leaves \<open>*out\<close> as it was and the stream empty.
\<close>

theorem fastq_truncated_ends_iteration:
  assumes "fq_reader it = Some rd"
    and "buffered_inputstream rd = Some (map Inr ls)"
    and "length ls < 4"
  shows "FastqFullFileIterable_Next it out =
           Some (Inr False, out, it\<lparr>fq_reader := Some (rd\<lparr>buffered_inputstream := Some []\<rparr>)\<rparr>)"
proof -
  from FastqReader_Next_short[OF assms(2,3)] obtain h s p q where
    "FastqReader_Next rd = Some (Err OutOfRange, h, s, p, q, rd\<lparr>buffered_inputstream := Some []\<rparr>)"
    by blast
  with assms(1) show ?thesis
    by (simp add: FastqFullFileIterable_Next_def fastq_CheckIsAlive_def Let_def IsOutOfRange_def)
qed

theorem fastq_truncated_ends_iteration_witness:
  "length [''@r1'', ''ACGT'', ''+''] < 4 \<and>
   FastqFullFileIterable_Next
     \<lparr>fq_reader = Some \<lparr>fq_options = \<lparr>compression_type = GZIP\<rparr>, src = True,
        buffered_inputstream = Some (map Inr [''@r1'', ''ACGT'', ''+''])\<rparr>\<rparr>
     FastqRecord_Clear =
   Some (Inr False, FastqRecord_Clear,
     \<lparr>fq_reader = Some \<lparr>fq_options = \<lparr>compression_type = GZIP\<rparr>, src = True,
        buffered_inputstream = Some []\<rparr>\<rparr>)"
proof -
  have len: "length [''@r1'', ''ACGT'', ''+''] < 4" by simp
  from fastq_truncated_ends_iteration[
      of "\<lparr>fq_reader = Some \<lparr>fq_options = \<lparr>compression_type = GZIP\<rparr>, src = True,
            buffered_inputstream = Some (map Inr [''@r1'', ''ACGT'', ''+''])\<rparr>\<rparr>"
         "\<lparr>fq_options = \<lparr>compression_type = GZIP\<rparr>, src = True,
            buffered_inputstream = Some (map Inr [''@r1'', ''ACGT'', ''+''])\<rparr>"
         "[''@r1'', ''ACGT'', ''+'']" FastqRecord_Clear, OF _ _ len] len
  show ?thesis by simp
qed

text \<open>
  C10. The pad line is not looked at: two units that differ in the third line only get
  the same result from the parser, and \<open>Next\<close> returns the same outcome, the same
  record and the same iterable for them, whatever the pad lines are (empty or not,
  starting with \<open>+\<close> or not).
\<close>

theorem fastq_pad_ignored:
  "fastq_ConvertToPb H S P Q = fastq_ConvertToPb H S P' Q \<and>
   FastqFullFileIterable_Next
     \<lparr>fq_reader = Some (rd\<lparr>buffered_inputstream := Some (Inr H # Inr S # Inr P # Inr Q # rest)\<rparr>)\<rparr> out =
   FastqFullFileIterable_Next
     \<lparr>fq_reader = Some (rd\<lparr>buffered_inputstream := Some (Inr H # Inr S # Inr P' # Inr Q # rest)\<rparr>)\<rparr> out"
proof
  show cv: "fastq_ConvertToPb H S P Q = fastq_ConvertToPb H S P' Q"
    by (simp add: fastq_ConvertToPb_def)
  show "FastqFullFileIterable_Next
     \<lparr>fq_reader = Some (rd\<lparr>buffered_inputstream := Some (Inr H # Inr S # Inr P # Inr Q # rest)\<rparr>)\<rparr> out =
   FastqFullFileIterable_Next
     \<lparr>fq_reader = Some (rd\<lparr>buffered_inputstream := Some (Inr H # Inr S # Inr P' # Inr Q # rest)\<rparr>)\<rparr> out"
    by (simp add: fastq_Next_four cv split: option.splits prod.splits status.splits)
qed

theorem fastq_pad_ignored_witness:
  "fastq_ConvertToPb ''@r1'' ''ACGT'' ''+'' ''!!!!'' = fastq_ConvertToPb ''@r1'' ''ACGT'' [] ''!!!!'' \<and>
   FastqFullFileIterable_Next
     \<lparr>fq_reader = Some (\<lparr>fq_options = \<lparr>compression_type = NONE\<rparr>, src = True,
         buffered_inputstream = None\<rparr>\<lparr>buffered_inputstream :=
           Some (Inr ''@r1'' # Inr ''ACGT'' # Inr ''+'' # Inr ''!!!!'' # [])\<rparr>)\<rparr> FastqRecord_Clear =
   FastqFullFileIterable_Next
     \<lparr>fq_reader = Some (\<lparr>fq_options = \<lparr>compression_type = NONE\<rparr>, src = True,
         buffered_inputstream = None\<rparr>\<lparr>buffered_inputstream :=
           Some (Inr ''@r1'' # Inr ''ACGT'' # Inr [] # Inr ''!!!!'' # [])\<rparr>)\<rparr> FastqRecord_Clear"
  by (rule fastq_pad_ignored)

section \<open>Properties of the BED reader\<close>

subsection \<open>The parser, the line reader and one call of Next\<close>

lemma NextNonCommentLine_Nil: "NextNonCommentLine [] l = (Err OutOfRange, l, [])"
  by (subst NextNonCommentLine.simps) (simp add: hts_getline_def)

lemma NextNonCommentLine_ReadError:
  "NextNonCommentLine (ReadError # fp) l = (Err DataLoss, l, fp)"
  by (subst NextNonCommentLine.simps) (simp add: hts_getline_def)

lemma NextNonCommentLine_Text:
  "NextNonCommentLine (Text s # fp) l =
     (if StartsWith s BED_COMMENT_PREFIX then NextNonCommentLine fp s else (OK, s, fp))"
  by (subst NextNonCommentLine.simps) (simp add: hts_getline_def)

lemmas NextNonCommentLine_eqs =
  NextNonCommentLine_Nil NextNonCommentLine_ReadError NextNonCommentLine_Text

lemma NextNonCommentLine_status:
  "fst (NextNonCommentLine fp l) = OK \<or> fst (NextNonCommentLine fp l) = Err OutOfRange \<or>
   fst (NextNonCommentLine fp l) = Err DataLoss"
proof (induction fp arbitrary: l)
  case Nil
  show ?case by (simp add: NextNonCommentLine_Nil)
next
  case (Cons r fp)
  show ?case
  proof (cases r)
    case (Text s)
    with Cons[of s] show ?thesis by (simp add: NextNonCommentLine_Text)
  next
    case ReadError
    then show ?thesis by (simp add: NextNonCommentLine_ReadError)
  qed
qed

lemma StrSplit_nonempty: "StrSplit s d \<noteq> []"
  by (induction s) (auto split: list.splits)

text \<open>
  Every token that the parser reads exists: past the test of the number of tokens there
  are at least three, and a guard on \<open>numFields\<close> bounds the number of tokens as well.
\<close>

lemma bed_ConvertToPb_tokens_in_range:
  assumes "ValidNumBedFields n" and "nf = (if d = 0 then n else min n d)"
  shows "2 < n \<and> (3 < nf \<longrightarrow> 3 < n) \<and> (4 < nf \<longrightarrow> 4 < n) \<and> (5 < nf \<longrightarrow> 5 < n) \<and>
         (7 < nf \<longrightarrow> 7 < n) \<and> (8 < nf \<longrightarrow> 8 < n) \<and> (12 \<le> nf \<longrightarrow> 11 < n)"
  using assms by (auto simp: ValidNumBedFields_def)

lemma bed_ConvertToPb_numTokens:
  "fst (snd (bed_ConvertToPb E line d)) = int (length (StrSplit line TAB))"
  by (simp add: bed_ConvertToPb_def Let_def)

lemma bed_ConvertToPb_invalid:
  "\<not> ValidNumBedFields (int (length (StrSplit line TAB))) \<Longrightarrow>
   bed_ConvertToPb E line d = (Err Unknown, int (length (StrSplit line TAB)), BedRecord_Clear)"
  by (simp add: bed_ConvertToPb_def Let_def)

lemma bed_ConvertToPb_status:
  "fst (bed_ConvertToPb E line d) = OK \<or> fst (bed_ConvertToPb E line d) = Err Unknown"
  by (simp add: bed_ConvertToPb_def Let_def)

lemma bed_ConvertToPb_status_env:
  "fst (bed_ConvertToPb E line d) = fst (bed_ConvertToPb E' line d)"
  by (simp add: bed_ConvertToPb_def Let_def)

lemma bed_ConvertToPb_OK_valid:
  "fst (bed_ConvertToPb E line d) = OK \<Longrightarrow> ValidNumBedFields (int (length (StrSplit line TAB)))"
  by (simp add: bed_ConvertToPb_def Let_def split: if_splits)

lemma bed_Next_line:
  assumes "bed_reader it = Some rd" and "bed_fp rd = Some fp"
    and "NextNonCommentLine fp [] = (OK, line, fp')"
  shows "BedFullFileIterable_Next E it out =
     (case bed_ConvertToPb E line (num_fields (bed_options rd)) of
        (Err c, n, r) \<Rightarrow> Some (Inl c, r, it\<lparr>bed_reader := Some (rd\<lparr>bed_fp := Some fp'\<rparr>)\<rparr>)
      | (OK, n, r) \<Rightarrow>
          (if header_num_fields (bed_header rd) \<noteq> n
           then Some (Inl Unknown, r, it\<lparr>bed_reader := Some (rd\<lparr>bed_fp := Some fp'\<rparr>)\<rparr>)
           else Some (Inr True, r, it\<lparr>bed_reader := Some (rd\<lparr>bed_fp := Some fp'\<rparr>)\<rparr>)))"
  using assms
  by (simp add: BedFullFileIterable_Next_def bed_CheckIsAlive_def Validate_def Let_def
      split: prod.splits status.splits)

lemma bed_Next_result:
  assumes "bed_reader it = Some rd" and "bed_fp rd = Some fp"
    and "NextNonCommentLine fp [] = (OK, line, fp')"
  shows "BedFullFileIterable_Next E it out =
     Some (if fst (bed_ConvertToPb E line (num_fields (bed_options rd))) = OK \<and>
              header_num_fields (bed_header rd) = int (length (StrSplit line TAB))
           then Inr True else Inl Unknown,
           snd (snd (bed_ConvertToPb E line (num_fields (bed_options rd)))),
           it\<lparr>bed_reader := Some (rd\<lparr>bed_fp := Some fp'\<rparr>)\<rparr>)"
proof -
  obtain st n r where cv: "bed_ConvertToPb E line (num_fields (bed_options rd)) = (st, n, r)"
    by (cases "bed_ConvertToPb E line (num_fields (bed_options rd))") auto
  from cv bed_ConvertToPb_numTokens[of E line "num_fields (bed_options rd)"]
  have n: "n = int (length (StrSplit line TAB))" by simp
  from cv bed_ConvertToPb_status[of E line "num_fields (bed_options rd)"]
  have st: "st = OK \<or> st = Err Unknown" by simp
  from st show ?thesis
    by (auto simp: bed_Next_line[OF assms] cv n)
qed

lemma bed_Next_error:
  assumes "bed_reader it = Some rd" and "bed_fp rd = Some fp"
    and "NextNonCommentLine fp [] = (Err c, l', fp')"
  shows "BedFullFileIterable_Next E it out =
     Some (if c = OutOfRange then Inr False else Inl c, out,
           it\<lparr>bed_reader := Some (rd\<lparr>bed_fp := Some fp'\<rparr>)\<rparr>)"
  using assms
  by (simp add: BedFullFileIterable_Next_def bed_CheckIsAlive_def Let_def IsOutOfRange_def)

lemma bed_Next_True_D:
  assumes "BedFullFileIterable_Next E it out = Some (Inr True, r, it')"
    and "bed_reader it = Some rd"
  shows "\<exists>fp line fp'. bed_fp rd = Some fp \<and> NextNonCommentLine fp [] = (OK, line, fp') \<and>
           fst (bed_ConvertToPb E line (num_fields (bed_options rd))) = OK \<and>
           header_num_fields (bed_header rd) = int (length (StrSplit line TAB)) \<and>
           r = snd (snd (bed_ConvertToPb E line (num_fields (bed_options rd))))"
proof (cases "bed_fp rd")
  case None
  with assms show ?thesis by (simp add: BedFullFileIterable_Next_def bed_CheckIsAlive_def)
next
  case (Some fp)
  obtain st l fp' where nn: "NextNonCommentLine fp [] = (st, l, fp')"
    by (cases "NextNonCommentLine fp []") auto
  show ?thesis
  proof (cases st)
    case (Err c)
    with nn have "NextNonCommentLine fp [] = (Err c, l, fp')" by simp
    from bed_Next_error[OF assms(2) Some this, of E out] assms(1) show ?thesis
      by (simp split: if_splits)
  next
    case OK
    with nn have nn': "NextNonCommentLine fp [] = (OK, l, fp')" by simp
    from bed_Next_result[OF assms(2) Some nn', of E out] assms(1)
    have "fst (bed_ConvertToPb E l (num_fields (bed_options rd))) = OK \<and>
          header_num_fields (bed_header rd) = int (length (StrSplit l TAB)) \<and>
          r = snd (snd (bed_ConvertToPb E l (num_fields (bed_options rd))))"
      by (simp split: if_splits)
    with Some nn' show ?thesis by blast
  qed
qed

lemma bed_Next_outcome_env:
  "map_option fst (BedFullFileIterable_Next E it out) =
   map_option fst (BedFullFileIterable_Next E' it out)"
proof (cases "bed_reader it")
  case None
  then show ?thesis by (simp add: BedFullFileIterable_Next_def bed_CheckIsAlive_def)
next
  case (Some rd)
  show ?thesis
  proof (cases "bed_fp rd")
    case None
    with Some show ?thesis by (simp add: BedFullFileIterable_Next_def bed_CheckIsAlive_def)
  next
    case fp: (Some fp)
    obtain st l fp' where nn: "NextNonCommentLine fp [] = (st, l, fp')"
      by (cases "NextNonCommentLine fp []") auto
    show ?thesis
    proof (cases st)
      case OK
      with nn have nn': "NextNonCommentLine fp [] = (OK, l, fp')" by simp
      show ?thesis
        using bed_ConvertToPb_status_env[of E l "num_fields (bed_options rd)" E']
        by (simp add: bed_Next_result[OF Some fp nn'])
    next
      case (Err c)
      with nn have nn': "NextNonCommentLine fp [] = (Err c, l, fp')" by simp
      show ?thesis by (simp add: bed_Next_error[OF Some fp nn'])
    qed
  qed
qed

lemma bed_ConvertToPb_rest_keeps:
  "bed_reference_name (bed_ConvertToPb_rest E tokens nf v r) = bed_reference_name r"
  "bed_start (bed_ConvertToPb_rest E tokens nf v r) = bed_start r"
  "bed_end (bed_ConvertToPb_rest E tokens nf v r) = bed_end r"
  "bed_name (bed_ConvertToPb_rest E tokens nf v r) = bed_name r"
  "bed_score (bed_ConvertToPb_rest E tokens nf v r) = bed_score r"
  "bed_strand (bed_ConvertToPb_rest E tokens nf v r) = bed_strand r"
  by (simp_all add: bed_ConvertToPb_rest_def Let_def)

lemma bed_ConvertToPb_strand:
  assumes "ValidNumBedFields (int (length (StrSplit line TAB)))"
    and "5 < (if d = 0 then int (length (StrSplit line TAB))
              else min (int (length (StrSplit line TAB))) d)"
  shows "fst (bed_ConvertToPb E line d) =
           (if StrSplit line TAB ! 5 = ''+'' \<or> StrSplit line TAB ! 5 = ''-'' \<or>
               StrSplit line TAB ! 5 = ''.'' then OK else Err Unknown) \<and>
         bed_strand (snd (snd (bed_ConvertToPb E line d))) =
           (if StrSplit line TAB ! 5 = ''+'' then Some FORWARD_STRAND
            else if StrSplit line TAB ! 5 = ''-'' then Some REVERSE_STRAND
            else if StrSplit line TAB ! 5 = ''.'' then Some NO_STRAND
            else None)"
  using assms
  by (simp add: bed_ConvertToPb_def Let_def bed_ConvertToPb_rest_keeps BedRecord_Clear_def)

lemma bed_ConvertToPb_start_end:
  assumes "ValidNumBedFields (int (length (StrSplit line TAB)))"
  shows "bed_reference_name (snd (snd (bed_ConvertToPb E line d))) = Some (StrSplit line TAB ! 0)"
    and "bed_start (snd (snd (bed_ConvertToPb E line d))) =
           Some (snd (safe_strto64 E (StrSplit line TAB ! 1) (int64Value_init E)))"
    and "bed_end (snd (snd (bed_ConvertToPb E line d))) =
           Some (snd (safe_strto64 E (StrSplit line TAB ! 2)
             (snd (safe_strto64 E (StrSplit line TAB ! 1) (int64Value_init E)))))"
  using assms
  by (simp_all add: bed_ConvertToPb_def Let_def bed_ConvertToPb_rest_keeps BedRecord_Clear_def)

lemma bed_ConvertToPb_score:
  assumes "ValidNumBedFields (int (length (StrSplit line TAB)))"
  shows "bed_score (snd (snd (bed_ConvertToPb E line d))) =
           (if 4 < (if d = 0 then int (length (StrSplit line TAB))
                    else min (int (length (StrSplit line TAB))) d)
            then Some (snd (safe_strtod E (StrSplit line TAB ! 4) (value_init E))) else None)"
    and "bed_name (snd (snd (bed_ConvertToPb E line d))) =
           (if 3 < (if d = 0 then int (length (StrSplit line TAB))
                    else min (int (length (StrSplit line TAB))) d)
            then Some (StrSplit line TAB ! 3) else None)"
  using assms
  by (simp_all add: bed_ConvertToPb_def Let_def bed_ConvertToPb_rest_keeps BedRecord_Clear_def)

lemma bed_ConvertToPb_rest_fields:
  assumes "bed_thick_start r = None" "bed_thick_end r = None" "bed_item_rgb r = None"
    "bed_block_count r = None" "bed_block_sizes r = None" "bed_block_starts r = None"
  shows "bed_thick_start (bed_ConvertToPb_rest E tokens nf v r) =
           (if 7 < nf then Some (snd (safe_strto64 E (tokens ! 6) v)) else None)"
    and "bed_thick_end (bed_ConvertToPb_rest E tokens nf v r) =
           (if 7 < nf then Some (snd (safe_strto64 E (tokens ! 7)
              (snd (safe_strto64 E (tokens ! 6) v)))) else None)"
    and "bed_item_rgb (bed_ConvertToPb_rest E tokens nf v r) =
           (if 8 < nf then Some (tokens ! 8) else None)"
    and "bed_block_count (bed_ConvertToPb_rest E tokens nf v r) =
           (if 12 \<le> nf then Some (snd (safe_strto32 E (tokens ! 9) (int32Value_init E)))
            else None)"
    and "bed_block_sizes (bed_ConvertToPb_rest E tokens nf v r) =
           (if 12 \<le> nf then Some (tokens ! 10) else None)"
    and "bed_block_starts (bed_ConvertToPb_rest E tokens nf v r) =
           (if 12 \<le> nf then Some (tokens ! 11) else None)"
  using assms by (simp_all add: bed_ConvertToPb_rest_def Let_def)

lemma bed_ConvertToPb_OK_eq:
  assumes "ValidNumBedFields (int (length (StrSplit line TAB)))"
    and "fst (bed_ConvertToPb E line d) = OK"
    and "nf = (if d = 0 then int (length (StrSplit line TAB))
               else min (int (length (StrSplit line TAB))) d)"
    and "v2 = snd (safe_strto64 E (StrSplit line TAB ! 2)
             (snd (safe_strto64 E (StrSplit line TAB ! 1) (int64Value_init E))))"
  shows "snd (snd (bed_ConvertToPb E line d)) =
     bed_ConvertToPb_rest E (StrSplit line TAB) nf v2
       \<lparr>bed_reference_name = Some (StrSplit line TAB ! 0),
        bed_start = Some (snd (safe_strto64 E (StrSplit line TAB ! 1) (int64Value_init E))),
        bed_end = Some v2,
        bed_name = (if 3 < nf then Some (StrSplit line TAB ! 3) else None),
        bed_score =
          (if 4 < nf then Some (snd (safe_strtod E (StrSplit line TAB ! 4) (value_init E)))
           else None),
        bed_strand =
          (if 5 < nf then
             (if StrSplit line TAB ! 5 = ''+'' then Some FORWARD_STRAND
              else if StrSplit line TAB ! 5 = ''-'' then Some REVERSE_STRAND
              else Some NO_STRAND)
           else None),
        bed_thick_start = None, bed_thick_end = None, bed_item_rgb = None,
        bed_block_count = None, bed_block_sizes = None, bed_block_starts = None\<rparr>"
proof (cases "5 < nf")
  case False
  with assms show ?thesis
    by (simp add: bed_ConvertToPb_def Let_def BedRecord_Clear_def)
next
  case True
  with assms(1,3) have five: "5 < (if d = 0 then int (length (StrSplit line TAB))
              else min (int (length (StrSplit line TAB))) d)" by simp
  from bed_ConvertToPb_strand[OF assms(1) five, of E] assms(2)
  have lit: "StrSplit line TAB ! 5 = ''+'' \<or> StrSplit line TAB ! 5 = ''-'' \<or>
             StrSplit line TAB ! 5 = ''.''"
    by (simp split: if_splits)
  from lit True assms(1,3,4) show ?thesis
    by (elim disjE) (simp_all add: bed_ConvertToPb_def Let_def BedRecord_Clear_def)
qed

lemma bed_ConvertToPb_tail_OK:
  assumes "ValidNumBedFields (int (length (StrSplit line TAB)))"
    and "fst (bed_ConvertToPb E line d) = OK"
    and "nf = (if d = 0 then int (length (StrSplit line TAB))
               else min (int (length (StrSplit line TAB))) d)"
    and "v2 = snd (safe_strto64 E (StrSplit line TAB ! 2)
             (snd (safe_strto64 E (StrSplit line TAB ! 1) (int64Value_init E))))"
  shows "bed_thick_start (snd (snd (bed_ConvertToPb E line d))) =
           (if 7 < nf then Some (snd (safe_strto64 E (StrSplit line TAB ! 6) v2)) else None)"
    and "bed_thick_end (snd (snd (bed_ConvertToPb E line d))) =
           (if 7 < nf then Some (snd (safe_strto64 E (StrSplit line TAB ! 7)
              (snd (safe_strto64 E (StrSplit line TAB ! 6) v2)))) else None)"
    and "bed_item_rgb (snd (snd (bed_ConvertToPb E line d))) =
           (if 8 < nf then Some (StrSplit line TAB ! 8) else None)"
    and "bed_block_count (snd (snd (bed_ConvertToPb E line d))) =
           (if 12 \<le> nf then Some (snd (safe_strto32 E (StrSplit line TAB ! 9) (int32Value_init E)))
            else None)"
    and "bed_block_sizes (snd (snd (bed_ConvertToPb E line d))) =
           (if 12 \<le> nf then Some (StrSplit line TAB ! 10) else None)"
    and "bed_block_starts (snd (snd (bed_ConvertToPb E line d))) =
           (if 12 \<le> nf then Some (StrSplit line TAB ! 11) else None)"
  by (simp_all only: bed_ConvertToPb_OK_eq[OF assms] bed_ConvertToPb_rest_fields
      BedRecord.simps)

lemma bed_ConvertToPb_tail_Err:
  assumes "fst (bed_ConvertToPb E line d) \<noteq> OK"
  shows "bed_thick_start (snd (snd (bed_ConvertToPb E line d))) = None"
    and "bed_thick_end (snd (snd (bed_ConvertToPb E line d))) = None"
    and "bed_item_rgb (snd (snd (bed_ConvertToPb E line d))) = None"
    and "bed_block_count (snd (snd (bed_ConvertToPb E line d))) = None"
    and "bed_block_sizes (snd (snd (bed_ConvertToPb E line d))) = None"
    and "bed_block_starts (snd (snd (bed_ConvertToPb E line d))) = None"
  using assms
  by (simp_all add: bed_ConvertToPb_def Let_def BedRecord_Clear_def split: if_splits)

lemma bed_ConvertToPb_numeric_fields:
  assumes "ValidNumBedFields (int (length (StrSplit line TAB)))"
    and "r = snd (snd (bed_ConvertToPb E line d))"
  shows "bed_start r = Some (snd (safe_strto64 E (StrSplit line TAB ! 1) (int64Value_init E)))"
    and "bed_end r = Some (snd (safe_strto64 E (StrSplit line TAB ! 2) (the (bed_start r))))"
    and "bed_score r \<noteq> None \<longrightarrow>
           bed_score r = Some (snd (safe_strtod E (StrSplit line TAB ! 4) (value_init E)))"
    and "bed_thick_start r \<noteq> None \<longrightarrow>
           bed_thick_start r = Some (snd (safe_strto64 E (StrSplit line TAB ! 6) (the (bed_end r))))"
    and "bed_thick_end r \<noteq> None \<longrightarrow>
           bed_thick_end r =
             Some (snd (safe_strto64 E (StrSplit line TAB ! 7) (the (bed_thick_start r))))"
    and "bed_block_count r \<noteq> None \<longrightarrow>
           bed_block_count r =
             Some (snd (safe_strto32 E (StrSplit line TAB ! 9) (int32Value_init E)))"
proof -
  note se = bed_ConvertToPb_start_end[OF assms(1), of E d]
  show "bed_start r = Some (snd (safe_strto64 E (StrSplit line TAB ! 1) (int64Value_init E)))"
    by (simp add: assms(2) se)
  show "bed_end r = Some (snd (safe_strto64 E (StrSplit line TAB ! 2) (the (bed_start r))))"
    by (simp add: assms(2) se)
  show "bed_score r \<noteq> None \<longrightarrow>
           bed_score r = Some (snd (safe_strtod E (StrSplit line TAB ! 4) (value_init E)))"
    by (simp add: assms(2) bed_ConvertToPb_score[OF assms(1), of E d])
  show "bed_thick_start r \<noteq> None \<longrightarrow>
           bed_thick_start r = Some (snd (safe_strto64 E (StrSplit line TAB ! 6) (the (bed_end r))))"
  proof (cases "fst (bed_ConvertToPb E line d) = OK")
    case True
    show ?thesis
      by (simp add: assms(2) se bed_ConvertToPb_tail_OK(1)[OF assms(1) True refl refl])
  next
    case False
    then show ?thesis by (simp add: assms(2) bed_ConvertToPb_tail_Err)
  qed
  show "bed_thick_end r \<noteq> None \<longrightarrow>
           bed_thick_end r =
             Some (snd (safe_strto64 E (StrSplit line TAB ! 7) (the (bed_thick_start r))))"
  proof (cases "fst (bed_ConvertToPb E line d) = OK")
    case True
    show ?thesis
      by (simp add: assms(2) se bed_ConvertToPb_tail_OK(1,2)[OF assms(1) True refl refl])
  next
    case False
    then show ?thesis by (simp add: assms(2) bed_ConvertToPb_tail_Err)
  qed
  show "bed_block_count r \<noteq> None \<longrightarrow>
           bed_block_count r =
             Some (snd (safe_strto32 E (StrSplit line TAB ! 9) (int32Value_init E)))"
  proof (cases "fst (bed_ConvertToPb E line d) = OK")
    case True
    show ?thesis
      by (simp add: assms(2) bed_ConvertToPb_tail_OK(4)[OF assms(1) True refl refl])
  next
    case False
    then show ?thesis by (simp add: assms(2) bed_ConvertToPb_tail_Err)
  qed
qed

lemma populated_narrow:
  assumes "ValidNumBedFields d"
    and "(nm \<noteq> None) = (3 < d)" and "(sc \<noteq> None) = (4 < d)" and "(sd \<noteq> None) = (5 < d)"
  shows "populated
     (bed_ConvertToPb_rest E tokens d v2
       \<lparr>bed_reference_name = Some t0, bed_start = Some v1, bed_end = Some v2,
        bed_name = nm, bed_score = sc, bed_strand = sd,
        bed_thick_start = None, bed_thick_end = None, bed_item_rgb = None,
        bed_block_count = None, bed_block_sizes = None, bed_block_starts = None\<rparr>) =
     replicate (nat d) True @ replicate (12 - nat d) False"
  using assms unfolding ValidNumBedFields_def
  by (elim disjE)
    (simp_all add: populated_def bed_ConvertToPb_rest_def Let_def eval_nat_numeral
      del: not_None_eq)

lemma strip_Nil:
  "strip_comments fp = [] \<Longrightarrow> \<exists>l'. NextNonCommentLine fp l = (Err OutOfRange, l', [])"
proof (induction fp arbitrary: l)
  case Nil
  show ?case by (simp add: NextNonCommentLine_Nil)
next
  case (Cons r fp)
  from Cons.prems obtain s where r: "r = Text s" and c: "StartsWith s BED_COMMENT_PREFIX"
    and rest: "strip_comments fp = []"
    by (cases r) (auto simp: strip_comments_def is_comment_def split: if_splits)
  from Cons.IH[OF rest, of s] r c show ?case by (simp add: NextNonCommentLine_Text)
qed

lemma strip_ReadError:
  "strip_comments fp = ReadError # rest \<Longrightarrow>
   \<exists>l' fp'. NextNonCommentLine fp l = (Err DataLoss, l', fp') \<and> strip_comments fp' = rest"
proof (induction fp arbitrary: l)
  case Nil
  then show ?case by (simp add: strip_comments_def)
next
  case (Cons r fp)
  show ?case
  proof (cases r)
    case ReadError
    with Cons.prems show ?thesis
      by (simp add: NextNonCommentLine_ReadError strip_comments_def is_comment_def)
  next
    case (Text s)
    with Cons.prems have c: "StartsWith s BED_COMMENT_PREFIX"
      and rest: "strip_comments fp = ReadError # rest"
      by (auto simp: strip_comments_def is_comment_def split: if_splits)
    from Cons.IH[OF rest, of s] Text c show ?thesis by (simp add: NextNonCommentLine_Text)
  qed
qed

lemma strip_Text:
  "strip_comments fp = Text s # rest \<Longrightarrow>
   \<exists>fp'. NextNonCommentLine fp l = (OK, s, fp') \<and> strip_comments fp' = rest"
proof (induction fp arbitrary: l)
  case Nil
  then show ?case by (simp add: strip_comments_def)
next
  case (Cons r fp)
  show ?case
  proof (cases r)
    case ReadError
    with Cons.prems show ?thesis
      by (simp add: strip_comments_def is_comment_def)
  next
    case (Text t)
    show ?thesis
    proof (cases "StartsWith t BED_COMMENT_PREFIX")
      case True
      with Cons.prems Text have rest: "strip_comments fp = Text s # rest"
        by (simp add: strip_comments_def is_comment_def)
      from Cons.IH[OF rest, of t] Text True show ?thesis
        by (simp add: NextNonCommentLine_Text)
    next
      case False
      with Cons.prems Text have "t = s" "strip_comments fp = rest"
        by (simp_all add: strip_comments_def is_comment_def)
      with Text False show ?thesis by (simp add: NextNonCommentLine_Text)
    qed
  qed
qed

lemma strip_cases:
  obtains "strip_comments fp = []"
  | rest where "strip_comments fp = ReadError # rest"
  | s rest where "strip_comments fp = Text s # rest"
  by (cases "strip_comments fp"; (cases "hd (strip_comments fp)")?; auto)

lemma GetNumFields_strip:
  assumes "fs path = Some fp"
  shows "GetNumFields fs path =
     (case strip_comments fp of
        [] \<Rightarrow> Inl OutOfRange
      | ReadError # rest \<Rightarrow> Inl DataLoss
      | Text s # rest \<Rightarrow> Inr (int (length (StrSplit s TAB))))"
proof (cases fp rule: strip_cases)
  case 1
  from strip_Nil[OF 1, of "[]"] 1 assms show ?thesis by (auto simp: GetNumFields_def)
next
  case (2 rest)
  from strip_ReadError[OF 2, of "[]"] 2 assms show ?thesis by (auto simp: GetNumFields_def)
next
  case (3 s rest)
  from strip_Text[OF 3, of "[]"] 3 assms show ?thesis by (auto simp: GetNumFields_def)
qed

lemma GetNumFields_None: "fs path = None \<Longrightarrow> GetNumFields fs path = Inl NotFound"
  by (simp add: GetNumFields_def)

lemma bed_FromFile_strip:
  "BedReader_FromFile fs path opts =
     (case fs path of
        None \<Rightarrow> Inl NotFound
      | Some fp \<Rightarrow>
          (case strip_comments fp of
             [] \<Rightarrow> Inl OutOfRange
           | ReadError # rest \<Rightarrow> Inl DataLoss
           | Text s # rest \<Rightarrow>
               if num_fields opts \<noteq> 0 \<and>
                  (num_fields opts > int (length (StrSplit s TAB)) \<or>
                   \<not> ValidNumBedFields (num_fields opts))
               then Inl InvalidArgument
               else Inr \<lparr>bed_options = opts,
                         bed_header = \<lparr>header_num_fields = int (length (StrSplit s TAB))\<rparr>,
                         bed_fp = Some fp\<rparr>))"
proof (cases "fs path")
  case None
  then show ?thesis by (simp add: BedReader_FromFile_def GetNumFields_None)
next
  case (Some fp)
  show ?thesis
    by (cases fp rule: strip_cases)
      (simp_all add: BedReader_FromFile_def GetNumFields_strip[of fs path fp, OF Some] Some Let_def)
qed

lemma bed_FromFile_accepts:
  assumes "BedReader_FromFile fs path opts = Inr rd"
  shows "bed_options rd = opts \<and>
         (num_fields opts \<noteq> 0 \<longrightarrow>
            ValidNumBedFields (num_fields opts) \<and>
            num_fields opts \<le> header_num_fields (bed_header rd))"
proof (cases "fs path")
  case None
  with assms show ?thesis by (simp add: bed_FromFile_strip)
next
  case (Some fp)
  with assms show ?thesis
    by (cases fp rule: strip_cases) (auto simp: bed_FromFile_strip split: if_splits)
qed




lemma strip_comments_insert:
  "StartsWith c BED_COMMENT_PREFIX \<Longrightarrow>
   strip_comments (xs @ Text c # ys) = strip_comments (xs @ ys)"
  by (simp add: strip_comments_def is_comment_def)

text \<open>The definitions that the examples unfold.\<close>

lemmas bed_eval =
  bed_ConvertToPb_def bed_ConvertToPb_rest_def TAB_def ValidNumBedFields_def BedRecord_Clear_def
  keeping_def decimal_def digit_of_def Let_def with_garbage_def

lemmas bed_next_eval =
  BedFullFileIterable_Next_def bed_CheckIsAlive_def Validate_def IsOutOfRange_def
  NextNonCommentLine_eqs StartsWith_def BED_COMMENT_PREFIX_def

subsection \<open>The claims about the BED reader, and about closing either reader\<close>

text \<open>
  C1 as stated fails on the error code. A file of two lines with six and four fields:
  the first call returns a record, the second returns \<open>Unknown\<close>, which
  \<^verbatim>\<open>BedReader::Validate\<close> builds, and not \<open>DataLoss\<close>.
\<close>

theorem bed_varying_width_counterexample:
  "bed_session keeping [(7, 7, 7), (8, 8, 8)]
     (\<lambda>p. Some [Text (tsv [''chr1'', ''10'', ''20'', ''r1'', ''0'', ''+'']),
                 Text (tsv [''chr1'', ''30'', ''40'', ''r2''])])
     ''e3.bed'' \<lparr>num_fields = 0\<rparr> BedRecord_Clear =
   Inr (Some
     [(Inr True,
       \<lparr>bed_reference_name = Some ''chr1'', bed_start = Some 10, bed_end = Some 20,
        bed_name = Some ''r1'', bed_score = Some 0, bed_strand = Some FORWARD_STRAND,
        bed_thick_start = None, bed_thick_end = None, bed_item_rgb = None,
        bed_block_count = None, bed_block_sizes = None, bed_block_starts = None\<rparr>),
      (Inl Unknown,
       \<lparr>bed_reference_name = Some ''chr1'', bed_start = Some 30, bed_end = Some 40,
        bed_name = Some ''r2'', bed_score = None, bed_strand = None,
        bed_thick_start = None, bed_thick_end = None, bed_item_rgb = None,
        bed_block_count = None, bed_block_sizes = None, bed_block_starts = None\<rparr>)])"
  by (simp add: bed_session_def BedReader_FromFile_def GetNumFields_def BedReader_Iterate_def
      bed_next_eval bed_eval)

text \<open>
  C1, as the code has it. For every line that \<open>Next\<close> hands to the parser (the next
  line of the file that is not a comment): if the number of its tab-separated tokens is
  outside the valid set, or differs from the number of fields in the header, \<open>Next\<close>
  returns an error, and the error is \<open>Unknown\<close>; \<open>Next\<close> returns true, a record, only
  when the number of tokens is the header's and valid; and it returns nothing but true
  or \<open>Unknown\<close> for such a line.
\<close>

theorem bed_field_count_Unknown:
  assumes "bed_reader it = Some rd" and "bed_fp rd = Some fp"
    and "NextNonCommentLine fp [] = (OK, line, fp')"
  shows "\<exists>res r. BedFullFileIterable_Next E it out =
            Some (res, r, it\<lparr>bed_reader := Some (rd\<lparr>bed_fp := Some fp'\<rparr>)\<rparr>) \<and>
          (\<not> ValidNumBedFields (int (length (StrSplit line TAB))) \<or>
           int (length (StrSplit line TAB)) \<noteq> header_num_fields (bed_header rd)
             \<longrightarrow> res = Inl Unknown) \<and>
          (res = Inr True \<longrightarrow>
             int (length (StrSplit line TAB)) = header_num_fields (bed_header rd) \<and>
             ValidNumBedFields (int (length (StrSplit line TAB)))) \<and>
          (res = Inr True \<or> res = Inl Unknown)"
  using bed_ConvertToPb_OK_valid[of E line "num_fields (bed_options rd)"]
  by (auto simp: bed_Next_result[OF assms])

theorem bed_field_count_Unknown_witness:
  "NextNonCommentLine [Text ''# a comment'', Text (tsv [''chr1'', ''30'', ''40'', ''r2''])] [] =
     (OK, tsv [''chr1'', ''30'', ''40'', ''r2''], []) \<and>
   int (length (StrSplit (tsv [''chr1'', ''30'', ''40'', ''r2'']) TAB)) \<noteq> 6 \<and>
   (\<exists>r. BedFullFileIterable_Next keeping
      \<lparr>bed_reader = Some \<lparr>bed_options = \<lparr>num_fields = 0\<rparr>,
         bed_header = \<lparr>header_num_fields = 6\<rparr>,
         bed_fp = Some [Text ''# a comment'', Text (tsv [''chr1'', ''30'', ''40'', ''r2''])]\<rparr>\<rparr>
      BedRecord_Clear =
    Some (Inl Unknown, r,
      \<lparr>bed_reader = Some \<lparr>bed_options = \<lparr>num_fields = 0\<rparr>,
         bed_header = \<lparr>header_num_fields = 6\<rparr>, bed_fp = Some []\<rparr>\<rparr>))"
proof -
  have nn: "NextNonCommentLine [Text ''# a comment'', Text (tsv [''chr1'', ''30'', ''40'', ''r2''])] [] =
     (OK, tsv [''chr1'', ''30'', ''40'', ''r2''], [])"
    by (simp add: NextNonCommentLine_eqs StartsWith_def BED_COMMENT_PREFIX_def TAB_def)
  have n: "int (length (StrSplit (tsv [''chr1'', ''30'', ''40'', ''r2'']) TAB)) \<noteq> 6"
    by (simp add: TAB_def)
  from bed_field_count_Unknown[
      of "\<lparr>bed_reader = Some \<lparr>bed_options = \<lparr>num_fields = 0\<rparr>,
         bed_header = \<lparr>header_num_fields = 6\<rparr>,
         bed_fp = Some [Text ''# a comment'', Text (tsv [''chr1'', ''30'', ''40'', ''r2''])]\<rparr>\<rparr>"
         "\<lparr>bed_options = \<lparr>num_fields = 0\<rparr>,
         bed_header = \<lparr>header_num_fields = 6\<rparr>,
         bed_fp = Some [Text ''# a comment'', Text (tsv [''chr1'', ''30'', ''40'', ''r2''])]\<rparr>"
         _ _ _ keeping BedRecord_Clear, OF _ _ nn] n
  have "\<exists>r. BedFullFileIterable_Next keeping
      \<lparr>bed_reader = Some \<lparr>bed_options = \<lparr>num_fields = 0\<rparr>,
         bed_header = \<lparr>header_num_fields = 6\<rparr>,
         bed_fp = Some [Text ''# a comment'', Text (tsv [''chr1'', ''30'', ''40'', ''r2''])]\<rparr>\<rparr>
      BedRecord_Clear =
    Some (Inl Unknown, r,
      \<lparr>bed_reader = Some \<lparr>bed_options = \<lparr>num_fields = 0\<rparr>,
         bed_header = \<lparr>header_num_fields = 6\<rparr>, bed_fp = Some []\<rparr>\<rparr>)"
    by auto
  with nn n show ?thesis by blast
qed

text \<open>
  C4 as stated fails for the FASTQ reader: its \<open>Close\<close> resets the pointers that are
  set and returns \<open>OK\<close> every time, also the second time. Its destructor calls
  \<open>Close\<close> with no test and checks that the result is \<open>OK\<close>.
\<close>

theorem fastq_double_close_counterexample:
  "fst (FastqReader_Close (snd (FastqReader_Close
     \<lparr>fq_options = \<lparr>compression_type = NONE\<rparr>, src = True,
      buffered_inputstream = Some [Inr ''@r1'', Inr ''ACGT'', Inr ''+'', Inr ''!!!!'']\<rparr>))) = OK"
  by (simp add: FastqReader_Close_def)

text \<open>
  C4, as the code has it. BED reader: after a \<open>Close\<close> a second \<open>Close\<close> returns
  \<open>FailedPrecondition\<close> and so does \<open>Iterate\<close>; \<open>Close\<close> on an open reader returns
  \<open>OK\<close>, or \<open>Internal\<close> when \<^verbatim>\<open>hts_close\<close> fails, never \<open>FailedPrecondition\<close>.
  FASTQ reader: every \<open>Close\<close> returns \<open>OK\<close>, the second one too, and \<open>Iterate\<close> after
  a \<open>Close\<close> returns \<open>FailedPrecondition\<close>.
\<close>

theorem bed_and_fastq_close:
  "fst (BedReader_Close (snd (BedReader_Close rd v)) v') = Err FailedPrecondition \<and>
   BedReader_Iterate (snd (BedReader_Close rd v)) = Inl FailedPrecondition \<and>
   (bed_fp rd \<noteq> None \<longrightarrow>
      fst (BedReader_Close rd v) = (if v < 0 then Err Internal else OK)) \<and>
   fst (FastqReader_Close frd) = OK \<and>
   fst (FastqReader_Close (snd (FastqReader_Close frd))) = OK \<and>
   FastqReader_Iterate (snd (FastqReader_Close frd)) = Inl FailedPrecondition"
  by (auto simp: BedReader_Close_def BedReader_Iterate_def FastqReader_Close_def
      FastqReader_Iterate_def Let_def split: option.splits)

theorem bed_and_fastq_close_witness:
  "bed_fp \<lparr>bed_options = \<lparr>num_fields = 0\<rparr>, bed_header = \<lparr>header_num_fields = 3\<rparr>,
      bed_fp = Some [Text (tsv [''chr1'', ''10'', ''20''])]\<rparr> \<noteq> None \<and>
   fst (BedReader_Close \<lparr>bed_options = \<lparr>num_fields = 0\<rparr>,
      bed_header = \<lparr>header_num_fields = 3\<rparr>,
      bed_fp = Some [Text (tsv [''chr1'', ''10'', ''20''])]\<rparr> 0) = OK \<and>
   fst (BedReader_Close (snd (BedReader_Close \<lparr>bed_options = \<lparr>num_fields = 0\<rparr>,
      bed_header = \<lparr>header_num_fields = 3\<rparr>,
      bed_fp = Some [Text (tsv [''chr1'', ''10'', ''20''])]\<rparr> 0)) 0) = Err FailedPrecondition \<and>
   BedReader_Iterate (snd (BedReader_Close \<lparr>bed_options = \<lparr>num_fields = 0\<rparr>,
      bed_header = \<lparr>header_num_fields = 3\<rparr>,
      bed_fp = Some [Text (tsv [''chr1'', ''10'', ''20''])]\<rparr> 0)) = Inl FailedPrecondition \<and>
   FastqReader_Iterate (snd (FastqReader_Close
     \<lparr>fq_options = \<lparr>compression_type = NONE\<rparr>, src = True,
      buffered_inputstream = Some []\<rparr>)) = Inl FailedPrecondition"
  using bed_and_fastq_close[
      of "\<lparr>bed_options = \<lparr>num_fields = 0\<rparr>, bed_header = \<lparr>header_num_fields = 3\<rparr>,
            bed_fp = Some [Text (tsv [''chr1'', ''10'', ''20''])]\<rparr>" 0 0
         "\<lparr>fq_options = \<lparr>compression_type = NONE\<rparr>, src = True,
            buffered_inputstream = Some []\<rparr>"]
  by simp

text \<open>
  C5 as stated fails on the error code. A line of six fields with the strand \<open>x\<close>: the
  call returns \<open>Unknown\<close>, not \<open>DataLoss\<close>.
\<close>

theorem bed_strand_counterexample:
  "BedFullFileIterable_Next keeping
     \<lparr>bed_reader = Some \<lparr>bed_options = \<lparr>num_fields = 0\<rparr>,
        bed_header = \<lparr>header_num_fields = 6\<rparr>,
        bed_fp = Some [Text (tsv [''chr1'', ''10'', ''20'', ''r1'', ''0'', ''x''])]\<rparr>\<rparr>
     BedRecord_Clear =
   Some (Inl Unknown,
     \<lparr>bed_reference_name = Some ''chr1'', bed_start = Some 10, bed_end = Some 20,
      bed_name = Some ''r1'', bed_score = Some 0, bed_strand = None,
      bed_thick_start = None, bed_thick_end = None, bed_item_rgb = None,
      bed_block_count = None, bed_block_sizes = None, bed_block_starts = None\<rparr>,
     \<lparr>bed_reader = Some \<lparr>bed_options = \<lparr>num_fields = 0\<rparr>,
        bed_header = \<lparr>header_num_fields = 6\<rparr>, bed_fp = Some []\<rparr>\<rparr>)"
  by (simp add: bed_next_eval bed_eval)

text \<open>
  C5, as the code has it. For every line with a valid number of tokens of which at
  least six are parsed: the strand \<open>+\<close> gives \<open>FORWARD_STRAND\<close>, \<open>-\<close> gives
  \<open>REVERSE_STRAND\<close>, \<open>.\<close> gives \<open>NO_STRAND\<close>; with any other text in the sixth
  token \<open>Next\<close> returns the error \<open>Unknown\<close> and the strand is not set; and \<open>Next\<close>
  returns a record exactly when the strand is one of the three literals and the number
  of tokens is the header's.
\<close>

theorem bed_strand_literals:
  assumes "bed_reader it = Some rd" and "bed_fp rd = Some fp"
    and "NextNonCommentLine fp [] = (OK, line, fp')"
    and "ValidNumBedFields (int (length (StrSplit line TAB)))"
    and "5 < (if num_fields (bed_options rd) = 0 then int (length (StrSplit line TAB))
              else min (int (length (StrSplit line TAB))) (num_fields (bed_options rd)))"
  shows "\<exists>res r. BedFullFileIterable_Next E it out =
            Some (res, r, it\<lparr>bed_reader := Some (rd\<lparr>bed_fp := Some fp'\<rparr>)\<rparr>) \<and>
          (StrSplit line TAB ! 5 = ''+'' \<longrightarrow> bed_strand r = Some FORWARD_STRAND) \<and>
          (StrSplit line TAB ! 5 = ''-'' \<longrightarrow> bed_strand r = Some REVERSE_STRAND) \<and>
          (StrSplit line TAB ! 5 = ''.'' \<longrightarrow> bed_strand r = Some NO_STRAND) \<and>
          (StrSplit line TAB ! 5 \<noteq> ''+'' \<and> StrSplit line TAB ! 5 \<noteq> ''-'' \<and>
           StrSplit line TAB ! 5 \<noteq> ''.'' \<longrightarrow> res = Inl Unknown \<and> bed_strand r = None) \<and>
          (res = Inr True \<longleftrightarrow>
             (StrSplit line TAB ! 5 = ''+'' \<or> StrSplit line TAB ! 5 = ''-'' \<or>
              StrSplit line TAB ! 5 = ''.'') \<and>
             header_num_fields (bed_header rd) = int (length (StrSplit line TAB)))"
  using bed_ConvertToPb_strand[OF assms(4,5), of E]
  by (simp add: bed_Next_result[OF assms(1,2,3)])

theorem bed_strand_literals_witness:
  "NextNonCommentLine [Text (tsv [''chr1'', ''30'', ''40'', ''r2'', ''0'', ''-''])] [] =
     (OK, tsv [''chr1'', ''30'', ''40'', ''r2'', ''0'', ''-''], []) \<and>
   ValidNumBedFields (int (length (StrSplit (tsv [''chr1'', ''30'', ''40'', ''r2'', ''0'', ''-'']) TAB))) \<and>
   StrSplit (tsv [''chr1'', ''30'', ''40'', ''r2'', ''0'', ''-'']) TAB ! 5 = ''-'' \<and>
   (\<exists>r. BedFullFileIterable_Next keeping
      \<lparr>bed_reader = Some \<lparr>bed_options = \<lparr>num_fields = 0\<rparr>,
         bed_header = \<lparr>header_num_fields = 6\<rparr>,
         bed_fp = Some [Text (tsv [''chr1'', ''30'', ''40'', ''r2'', ''0'', ''-''])]\<rparr>\<rparr>
      BedRecord_Clear =
    Some (Inr True, r,
      \<lparr>bed_reader = Some \<lparr>bed_options = \<lparr>num_fields = 0\<rparr>,
         bed_header = \<lparr>header_num_fields = 6\<rparr>, bed_fp = Some []\<rparr>\<rparr>) \<and>
    bed_strand r = Some REVERSE_STRAND)"
proof -
  have nn: "NextNonCommentLine [Text (tsv [''chr1'', ''30'', ''40'', ''r2'', ''0'', ''-''])] [] =
     (OK, tsv [''chr1'', ''30'', ''40'', ''r2'', ''0'', ''-''], [])"
    by (simp add: NextNonCommentLine_eqs StartsWith_def BED_COMMENT_PREFIX_def TAB_def)
  have tk: "StrSplit (tsv [''chr1'', ''30'', ''40'', ''r2'', ''0'', ''-'']) TAB =
      [''chr1'', ''30'', ''40'', ''r2'', ''0'', ''-'']"
    by (simp add: TAB_def)
  have v: "ValidNumBedFields
      (int (length (StrSplit (tsv [''chr1'', ''30'', ''40'', ''r2'', ''0'', ''-'']) TAB)))"
    by (simp add: TAB_def ValidNumBedFields_def)
  have five: "5 < (if num_fields (bed_options \<lparr>bed_options = \<lparr>num_fields = 0\<rparr>,
         bed_header = \<lparr>header_num_fields = 6\<rparr>,
         bed_fp = Some [Text (tsv [''chr1'', ''30'', ''40'', ''r2'', ''0'', ''-''])]\<rparr>) = 0
       then int (length (StrSplit (tsv [''chr1'', ''30'', ''40'', ''r2'', ''0'', ''-'']) TAB))
       else min (int (length (StrSplit (tsv [''chr1'', ''30'', ''40'', ''r2'', ''0'', ''-'']) TAB)))
         (num_fields (bed_options \<lparr>bed_options = \<lparr>num_fields = 0\<rparr>,
         bed_header = \<lparr>header_num_fields = 6\<rparr>,
         bed_fp = Some [Text (tsv [''chr1'', ''30'', ''40'', ''r2'', ''0'', ''-''])]\<rparr>)))"
    by (simp add: TAB_def)
  from bed_strand_literals[
      of "\<lparr>bed_reader = Some \<lparr>bed_options = \<lparr>num_fields = 0\<rparr>,
         bed_header = \<lparr>header_num_fields = 6\<rparr>,
         bed_fp = Some [Text (tsv [''chr1'', ''30'', ''40'', ''r2'', ''0'', ''-''])]\<rparr>\<rparr>"
         _ _ _ _ keeping BedRecord_Clear, OF _ _ nn v five]
  have "\<exists>r. BedFullFileIterable_Next keeping
      \<lparr>bed_reader = Some \<lparr>bed_options = \<lparr>num_fields = 0\<rparr>,
         bed_header = \<lparr>header_num_fields = 6\<rparr>,
         bed_fp = Some [Text (tsv [''chr1'', ''30'', ''40'', ''r2'', ''0'', ''-''])]\<rparr>\<rparr>
      BedRecord_Clear =
    Some (Inr True, r,
      \<lparr>bed_reader = Some \<lparr>bed_options = \<lparr>num_fields = 0\<rparr>,
         bed_header = \<lparr>header_num_fields = 6\<rparr>, bed_fp = Some []\<rparr>\<rparr>) \<and>
    bed_strand r = Some REVERSE_STRAND"
    by (auto simp: TAB_def)
  with nn v show ?thesis by (simp add: TAB_def)
qed

text \<open>
  C6 fails on the code by a slip. The parser does not look at the result of a numeric
  primitive and stores the variable it gave it, which nothing has set to zero. On the
  line \<open>chr1 10 abc\<close>, with a primitive that assigns on success only, \<open>Next\<close> returns a
  record, with no error, as the claim says; but the end of the record is the start
  position 10 that \<open>int64Value\<close> still holds, where the claim has zero.
\<close>

theorem bed_numeric_stale_end:
  "safe_strto64 keeping ''abc'' 10 = (False, 10) \<and>
   bed_session keeping [(7, 7, 7)]
     (\<lambda>p. Some [Text (tsv [''chr1'', ''10'', ''abc''])])
     ''stale.bed'' \<lparr>num_fields = 0\<rparr> BedRecord_Clear =
   Inr (Some
     [(Inr True,
       \<lparr>bed_reference_name = Some ''chr1'', bed_start = Some 10, bed_end = Some 10,
        bed_name = None, bed_score = None, bed_strand = None,
        bed_thick_start = None, bed_thick_end = None, bed_item_rgb = None,
        bed_block_count = None, bed_block_sizes = None, bed_block_starts = None\<rparr>)])"
  by (simp add: bed_session_def BedReader_FromFile_def GetNumFields_def BedReader_Iterate_def
      bed_next_eval bed_eval)

text \<open>
  C7. With a number of fields in the options that is not zero and that \<open>FromFile\<close>
  accepted, every record that \<open>Next\<close> returns has exactly the first
  \<open>options.num_fields\<close> fields set, from the tokens of the line in their order, and
  no other field.
\<close>

theorem bed_narrowing_projection:
  assumes "BedReader_FromFile fs path opts = Inr rd0" and "num_fields opts \<noteq> 0"
    and "bed_reader it = Some rd" and "bed_options rd = bed_options rd0"
    and "bed_header rd = bed_header rd0"
    and "BedFullFileIterable_Next E it out = Some (Inr True, r, it')"
  shows "\<exists>fp line fp'. bed_fp rd = Some fp \<and> NextNonCommentLine fp [] = (OK, line, fp') \<and>
      num_fields opts \<le> int (length (StrSplit line TAB)) \<and>
      populated r =
        replicate (nat (num_fields opts)) True @ replicate (12 - nat (num_fields opts)) False \<and>
      bed_reference_name r = Some (StrSplit line TAB ! 0) \<and>
      bed_start r = Some (snd (safe_strto64 E (StrSplit line TAB ! 1) (int64Value_init E))) \<and>
      bed_end r = Some (snd (safe_strto64 E (StrSplit line TAB ! 2) (the (bed_start r)))) \<and>
      (3 < num_fields opts \<longrightarrow> bed_name r = Some (StrSplit line TAB ! 3)) \<and>
      (4 < num_fields opts \<longrightarrow>
         bed_score r = Some (snd (safe_strtod E (StrSplit line TAB ! 4) (value_init E)))) \<and>
      (5 < num_fields opts \<longrightarrow>
         bed_strand r =
           (if StrSplit line TAB ! 5 = ''+'' then Some FORWARD_STRAND
            else if StrSplit line TAB ! 5 = ''-'' then Some REVERSE_STRAND
            else Some NO_STRAND)) \<and>
      (7 < num_fields opts \<longrightarrow>
         bed_thick_start r =
           Some (snd (safe_strto64 E (StrSplit line TAB ! 6) (the (bed_end r)))) \<and>
         bed_thick_end r =
           Some (snd (safe_strto64 E (StrSplit line TAB ! 7) (the (bed_thick_start r))))) \<and>
      (8 < num_fields opts \<longrightarrow> bed_item_rgb r = Some (StrSplit line TAB ! 8)) \<and>
      (12 \<le> num_fields opts \<longrightarrow>
         bed_block_count r =
           Some (snd (safe_strto32 E (StrSplit line TAB ! 9) (int32Value_init E))) \<and>
         bed_block_sizes r = Some (StrSplit line TAB ! 10) \<and>
         bed_block_starts r = Some (StrSplit line TAB ! 11))"
proof -
  from bed_FromFile_accepts[OF assms(1)] assms(2,4,5)
  have opts: "bed_options rd = opts" and vd: "ValidNumBedFields (num_fields opts)"
    and le: "num_fields opts \<le> header_num_fields (bed_header rd)" by simp_all
  from bed_Next_True_D[OF assms(6,3)] opts obtain fp line fp' where
    fp: "bed_fp rd = Some fp" and nn: "NextNonCommentLine fp [] = (OK, line, fp')"
    and st: "fst (bed_ConvertToPb E line (num_fields opts)) = OK"
    and hd: "header_num_fields (bed_header rd) = int (length (StrSplit line TAB))"
    and r: "r = snd (snd (bed_ConvertToPb E line (num_fields opts)))" by auto
  from bed_ConvertToPb_OK_valid[OF st]
  have vn: "ValidNumBedFields (int (length (StrSplit line TAB)))" .
  from le hd assms(2)
  have nf: "num_fields opts =
      (if num_fields opts = 0 then int (length (StrSplit line TAB))
       else min (int (length (StrSplit line TAB))) (num_fields opts))" by simp
  note eq = bed_ConvertToPb_OK_eq[OF vn st nf refl]
  note nfs = bed_ConvertToPb_numeric_fields[OF vn r]
  have pop: "populated r =
      replicate (nat (num_fields opts)) True @ replicate (12 - nat (num_fields opts)) False"
    unfolding r eq by (rule populated_narrow[OF vd]) simp_all
  have f0: "bed_reference_name r = Some (StrSplit line TAB ! 0)"
    by (simp add: r bed_ConvertToPb_start_end[OF vn])
  have f3: "3 < num_fields opts \<longrightarrow> bed_name r = Some (StrSplit line TAB ! 3)"
    using le hd assms(2) by (simp add: r bed_ConvertToPb_score[OF vn] min_def)
  have f4: "4 < num_fields opts \<longrightarrow>
         bed_score r = Some (snd (safe_strtod E (StrSplit line TAB ! 4) (value_init E)))"
    using le hd assms(2) by (simp add: r bed_ConvertToPb_score[OF vn] min_def)
  have f5: "5 < num_fields opts \<longrightarrow>
         bed_strand r =
           (if StrSplit line TAB ! 5 = ''+'' then Some FORWARD_STRAND
            else if StrSplit line TAB ! 5 = ''-'' then Some REVERSE_STRAND
            else Some NO_STRAND)"
    unfolding r eq by (simp add: bed_ConvertToPb_rest_keeps)
  note tl = bed_ConvertToPb_tail_OK[OF vn st nf refl]
  have se: "bed_end r = Some (snd (safe_strto64 E (StrSplit line TAB ! 2)
             (snd (safe_strto64 E (StrSplit line TAB ! 1) (int64Value_init E)))))"
    by (simp add: r bed_ConvertToPb_start_end[OF vn])
  have f7: "7 < num_fields opts \<longrightarrow>
         bed_thick_start r =
           Some (snd (safe_strto64 E (StrSplit line TAB ! 6) (the (bed_end r)))) \<and>
         bed_thick_end r =
           Some (snd (safe_strto64 E (StrSplit line TAB ! 7) (the (bed_thick_start r))))"
    by (simp add: se) (simp add: r tl(1,2))
  have f8: "8 < num_fields opts \<longrightarrow> bed_item_rgb r = Some (StrSplit line TAB ! 8)"
    by (simp add: r tl(3))
  have f12: "12 \<le> num_fields opts \<longrightarrow>
         bed_block_count r =
           Some (snd (safe_strto32 E (StrSplit line TAB ! 9) (int32Value_init E))) \<and>
         bed_block_sizes r = Some (StrSplit line TAB ! 10) \<and>
         bed_block_starts r = Some (StrSplit line TAB ! 11)"
    by (simp add: r tl(4,5,6))
  from le hd have le': "num_fields opts \<le> int (length (StrSplit line TAB))" by simp
  from fp nn le' pop f0 nfs(1,2) f3 f4 f5 f7 f8 f12 show ?thesis by blast
qed

theorem bed_narrowing_projection_witness:
  "BedReader_FromFile
     (\<lambda>p. Some [Text (tsv [''chr1'', ''10'', ''20'', ''r1'', ''0'', ''+'']),
                 Text (tsv [''chr1'', ''30'', ''40'', ''r2'', ''0'', ''-''])])
     ''e2.bed'' \<lparr>num_fields = 3\<rparr> =
     Inr \<lparr>bed_options = \<lparr>num_fields = 3\<rparr>, bed_header = \<lparr>header_num_fields = 6\<rparr>,
          bed_fp = Some [Text (tsv [''chr1'', ''10'', ''20'', ''r1'', ''0'', ''+'']),
                         Text (tsv [''chr1'', ''30'', ''40'', ''r2'', ''0'', ''-''])]\<rparr> \<and>
   BedFullFileIterable_Next keeping
     \<lparr>bed_reader = Some \<lparr>bed_options = \<lparr>num_fields = 3\<rparr>,
        bed_header = \<lparr>header_num_fields = 6\<rparr>,
        bed_fp = Some [Text (tsv [''chr1'', ''10'', ''20'', ''r1'', ''0'', ''+'']),
                       Text (tsv [''chr1'', ''30'', ''40'', ''r2'', ''0'', ''-''])]\<rparr>\<rparr>
     BedRecord_Clear =
   Some (Inr True,
     \<lparr>bed_reference_name = Some ''chr1'', bed_start = Some 10, bed_end = Some 20,
      bed_name = None, bed_score = None, bed_strand = None,
      bed_thick_start = None, bed_thick_end = None, bed_item_rgb = None,
      bed_block_count = None, bed_block_sizes = None, bed_block_starts = None\<rparr>,
     \<lparr>bed_reader = Some \<lparr>bed_options = \<lparr>num_fields = 3\<rparr>,
        bed_header = \<lparr>header_num_fields = 6\<rparr>,
        bed_fp = Some [Text (tsv [''chr1'', ''30'', ''40'', ''r2'', ''0'', ''-''])]\<rparr>\<rparr>) \<and>
   populated
     \<lparr>bed_reference_name = Some ''chr1'', bed_start = Some 10, bed_end = Some 20,
      bed_name = None, bed_score = None, bed_strand = None,
      bed_thick_start = None, bed_thick_end = None, bed_item_rgb = None,
      bed_block_count = None, bed_block_sizes = None, bed_block_starts = None\<rparr> =
     replicate (nat (num_fields \<lparr>num_fields = 3\<rparr>)) True @
     replicate (12 - nat (num_fields \<lparr>num_fields = 3\<rparr>)) False"
proof -
  have op: "BedReader_FromFile
     (\<lambda>p. Some [Text (tsv [''chr1'', ''10'', ''20'', ''r1'', ''0'', ''+'']),
                 Text (tsv [''chr1'', ''30'', ''40'', ''r2'', ''0'', ''-''])])
     ''e2.bed'' \<lparr>num_fields = 3\<rparr> =
     Inr \<lparr>bed_options = \<lparr>num_fields = 3\<rparr>, bed_header = \<lparr>header_num_fields = 6\<rparr>,
          bed_fp = Some [Text (tsv [''chr1'', ''10'', ''20'', ''r1'', ''0'', ''+'']),
                         Text (tsv [''chr1'', ''30'', ''40'', ''r2'', ''0'', ''-''])]\<rparr>"
    by (simp add: BedReader_FromFile_def GetNumFields_def NextNonCommentLine_eqs StartsWith_def
        BED_COMMENT_PREFIX_def TAB_def ValidNumBedFields_def)
  have nx: "BedFullFileIterable_Next keeping
     \<lparr>bed_reader = Some \<lparr>bed_options = \<lparr>num_fields = 3\<rparr>,
        bed_header = \<lparr>header_num_fields = 6\<rparr>,
        bed_fp = Some [Text (tsv [''chr1'', ''10'', ''20'', ''r1'', ''0'', ''+'']),
                       Text (tsv [''chr1'', ''30'', ''40'', ''r2'', ''0'', ''-''])]\<rparr>\<rparr>
     BedRecord_Clear =
   Some (Inr True,
     \<lparr>bed_reference_name = Some ''chr1'', bed_start = Some 10, bed_end = Some 20,
      bed_name = None, bed_score = None, bed_strand = None,
      bed_thick_start = None, bed_thick_end = None, bed_item_rgb = None,
      bed_block_count = None, bed_block_sizes = None, bed_block_starts = None\<rparr>,
     \<lparr>bed_reader = Some \<lparr>bed_options = \<lparr>num_fields = 3\<rparr>,
        bed_header = \<lparr>header_num_fields = 6\<rparr>,
        bed_fp = Some [Text (tsv [''chr1'', ''30'', ''40'', ''r2'', ''0'', ''-''])]\<rparr>\<rparr>)"
    by (simp add: bed_next_eval bed_eval)
  have nz: "num_fields \<lparr>num_fields = 3\<rparr> \<noteq> 0" by simp
  from bed_narrowing_projection[OF op nz _ _ _ nx]
  have "populated
     \<lparr>bed_reference_name = Some ''chr1'', bed_start = Some 10, bed_end = Some 20,
      bed_name = None, bed_score = None, bed_strand = None,
      bed_thick_start = None, bed_thick_end = None, bed_item_rgb = None,
      bed_block_count = None, bed_block_sizes = None, bed_block_starts = None\<rparr> =
     replicate (nat (num_fields \<lparr>num_fields = 3\<rparr>)) True @
     replicate (12 - nat (num_fields \<lparr>num_fields = 3\<rparr>)) False"
    by fastforce
  with op nx show ?thesis by blast
qed

text \<open>
  C8 as stated fails. A file that opens and holds nothing but a comment: the search for
  the first line of data ends with \<open>OutOfRange\<close>, and \<open>FromFile\<close> returns it.
\<close>

theorem bed_open_comment_only_counterexample:
  "BedReader_FromFile (\<lambda>p. if p = ''comments.bed'' then Some [Text ''# no intervals''] else None)
     ''comments.bed'' \<lparr>num_fields = 0\<rparr> = Inl OutOfRange"
  by (simp add: BedReader_FromFile_def GetNumFields_def NextNonCommentLine_eqs StartsWith_def
      BED_COMMENT_PREFIX_def)

text \<open>
  C8, as the code has it. \<open>FromFile\<close> returns \<open>NotFound\<close> when the path does not open;
  \<open>OutOfRange\<close> when the file has no line but comments; \<open>DataLoss\<close> when reading
  fails before the first line that is not a comment; \<open>InvalidArgument\<close> when the
  requested number of fields is not zero and either exceeds the number of tokens of the
  first such line or is not a valid count; and otherwise a reader, with the options,
  the number of tokens of that line as the header, and the file.
\<close>

theorem bed_open_outcomes:
  "BedReader_FromFile fs path opts =
     (case fs path of
        None \<Rightarrow> Inl NotFound
      | Some fp \<Rightarrow>
          (case strip_comments fp of
             [] \<Rightarrow> Inl OutOfRange
           | ReadError # rest \<Rightarrow> Inl DataLoss
           | Text s # rest \<Rightarrow>
               if num_fields opts \<noteq> 0 \<and>
                  (num_fields opts > int (length (StrSplit s TAB)) \<or>
                   \<not> ValidNumBedFields (num_fields opts))
               then Inl InvalidArgument
               else Inr \<lparr>bed_options = opts,
                         bed_header = \<lparr>header_num_fields = int (length (StrSplit s TAB))\<rparr>,
                         bed_fp = Some fp\<rparr>))"
proof (cases "fs path")
  case None
  then show ?thesis by (simp add: BedReader_FromFile_def GetNumFields_None)
next
  case (Some fp)
  consider "strip_comments fp = []" | rest where "strip_comments fp = ReadError # rest"
    | s rest where "strip_comments fp = Text s # rest"
    by (rule strip_cases)
  then show ?thesis
  proof cases
    case 1
    with Some GetNumFields_strip[of fs path fp] show ?thesis
      by (simp add: BedReader_FromFile_def)
  next
    case 2
    with Some GetNumFields_strip[of fs path fp] show ?thesis
      by (simp add: BedReader_FromFile_def)
  next
    case 3
    with Some GetNumFields_strip[of fs path fp] show ?thesis
      by (simp add: BedReader_FromFile_def Let_def)
  qed
qed

theorem bed_open_outcomes_witness:
  "BedReader_FromFile
     (\<lambda>p. if p = ''a.bed'' then Some [Text ''# c'', Text (tsv [''chr1'', ''10'', ''20''])] else None)
     ''a.bed'' \<lparr>num_fields = 4\<rparr> = Inl InvalidArgument \<and>
   BedReader_FromFile
     (\<lambda>p. if p = ''a.bed'' then Some [Text ''# c'', Text (tsv [''chr1'', ''10'', ''20''])] else None)
     ''b.bed'' \<lparr>num_fields = 0\<rparr> = Inl NotFound \<and>
   BedReader_FromFile
     (\<lambda>p. if p = ''a.bed'' then Some [Text ''# c'', Text (tsv [''chr1'', ''10'', ''20''])] else None)
     ''a.bed'' \<lparr>num_fields = 3\<rparr> =
     Inr \<lparr>bed_options = \<lparr>num_fields = 3\<rparr>, bed_header = \<lparr>header_num_fields = 3\<rparr>,
          bed_fp = Some [Text ''# c'', Text (tsv [''chr1'', ''10'', ''20''])]\<rparr>"
  using bed_open_outcomes[
      of "\<lambda>p. if p = ''a.bed'' then Some [Text ''# c'', Text (tsv [''chr1'', ''10'', ''20''])]
               else None" "''a.bed''" "\<lparr>num_fields = 4\<rparr>"]
    bed_open_outcomes[
      of "\<lambda>p. if p = ''a.bed'' then Some [Text ''# c'', Text (tsv [''chr1'', ''10'', ''20''])]
               else None" "''b.bed''" "\<lparr>num_fields = 0\<rparr>"]
    bed_open_outcomes[
      of "\<lambda>p. if p = ''a.bed'' then Some [Text ''# c'', Text (tsv [''chr1'', ''10'', ''20''])]
               else None" "''a.bed''" "\<lparr>num_fields = 3\<rparr>"]
  by (simp add: strip_comments_def is_comment_def StartsWith_def BED_COMMENT_PREFIX_def TAB_def
      ValidNumBedFields_def)




end
